theory Spec2Isabelle
  imports Main "HOL-Library.Char_ord" "HOL-Library.List_Lexorder"
begin

section \<open>Python exceptions\<close>

text \<open>
  The exception classes that the plugin subsystem raises or names in a handler, with the
  part of Python's class hierarchy that decides which \<open>except\<close> clause catches which
  exception. \<open>mro\<close> lists a class followed by its base classes.
\<close>

datatype exc_class =
    BaseException | SystemExit | KeyboardInterrupt | GeneratorExit
  | Exception | ImportError | ModuleNotFoundError | OSError | FileNotFoundError
  | PermissionError | ValueError | TOMLDecodeError | UnicodeDecodeError
  | AttributeError | TypeError | LookupError | KeyError | IndexError
  | SyntaxError | RuntimeError | RecursionError

fun mro :: "exc_class \<Rightarrow> exc_class list" where
  "mro BaseException = [BaseException]"
| "mro SystemExit = [SystemExit, BaseException]"
| "mro KeyboardInterrupt = [KeyboardInterrupt, BaseException]"
| "mro GeneratorExit = [GeneratorExit, BaseException]"
| "mro Exception = [Exception, BaseException]"
| "mro ImportError = [ImportError, Exception, BaseException]"
| "mro ModuleNotFoundError = [ModuleNotFoundError, ImportError, Exception, BaseException]"
| "mro OSError = [OSError, Exception, BaseException]"
| "mro FileNotFoundError = [FileNotFoundError, OSError, Exception, BaseException]"
| "mro PermissionError = [PermissionError, OSError, Exception, BaseException]"
| "mro ValueError = [ValueError, Exception, BaseException]"
| "mro TOMLDecodeError = [TOMLDecodeError, ValueError, Exception, BaseException]"
| "mro UnicodeDecodeError = [UnicodeDecodeError, ValueError, Exception, BaseException]"
| "mro AttributeError = [AttributeError, Exception, BaseException]"
| "mro TypeError = [TypeError, Exception, BaseException]"
| "mro LookupError = [LookupError, Exception, BaseException]"
| "mro KeyError = [KeyError, LookupError, Exception, BaseException]"
| "mro IndexError = [IndexError, LookupError, Exception, BaseException]"
| "mro SyntaxError = [SyntaxError, Exception, BaseException]"
| "mro RuntimeError = [RuntimeError, Exception, BaseException]"
| "mro RecursionError = [RecursionError, RuntimeError, Exception, BaseException]"

text \<open>A raised exception: its class and the text that \<open>str(e)\<close> gives.\<close>

datatype pyexc = Exc (exc_cls: exc_class) (exc_msg: string)

definition isinstance :: "pyexc \<Rightarrow> exc_class \<Rightarrow> bool" where
  "isinstance e k = (k \<in> set (mro (exc_cls e)))"

section \<open>The dispatch pipeline (plugins/integration.py)\<close>

text \<open>
  A plugin as the pipeline sees it: its declared \<open>PLUGIN_NAME\<close> and its
  \<open>apply_plugin(line_gen, node, context)\<close>. The call may mutate the shared context
  (the state \<open>'s\<close>) and then either returns \<open>None\<close> (\<open>Inr None\<close>), returns a
  result (\<open>Inr (Some lines)\<close>) or raises (\<open>Inl e\<close>). The host renderer
  \<open>line_gen\<close> may raise as well.
\<close>

type_synonym 'n line_gen = "'n \<Rightarrow> pyexc + string list"

record ('n, 's) plugin =
  PLUGIN_NAME :: string
  apply_plugin :: "'n line_gen \<Rightarrow> 'n \<Rightarrow> 's \<Rightarrow> (pyexc + string list option) \<times> 's"

text \<open>The line printed to stderr by the handler in \<open>_apply_plugins\<close>.\<close>

definition apply_error_line :: "string \<Rightarrow> pyexc \<Rightarrow> string" where
  "apply_error_line nm e = ''Error applying plugin '' @ nm @ '': '' @ exc_msg e"

text \<open>
  \<open>PluginLineGenerator._apply_plugins\<close>: the loop over the enabled plugins. The state is
  the context together with what has been written to stderr. The handler is
  \<open>except Exception\<close>: an exception that is not an instance of \<open>Exception\<close> leaves the
  loop and the function.
\<close>

fun apply_plugins ::
  "('n, 's) plugin list \<Rightarrow> 'n line_gen \<Rightarrow> 'n \<Rightarrow> 's \<times> string list
     \<Rightarrow> (pyexc + string list option) \<times> 's \<times> string list" where
  "apply_plugins [] lg n (c, err) = (Inr None, c, err)"
| "apply_plugins (p # ps) lg n (c, err) =
     (case apply_plugin p lg n c of
        (Inr (Some r), c') \<Rightarrow> (Inr (Some r), c', err)
      | (Inr None, c') \<Rightarrow> apply_plugins ps lg n (c', err)
      | (Inl e, c') \<Rightarrow>
          if isinstance e Exception
          then apply_plugins ps lg n (c', err @ [apply_error_line (PLUGIN_NAME p) e])
          else (Inl e, c', err))"

text \<open>\<open>PluginLineGenerator.visit\<close>: the plugins first, the host renderer otherwise.\<close>

definition visit ::
  "('n, 's) plugin list \<Rightarrow> 'n line_gen \<Rightarrow> 'n \<Rightarrow> 's \<times> string list
     \<Rightarrow> (pyexc + string list) \<times> 's \<times> string list" where
  "visit ps lg n st =
     (case apply_plugins ps lg n st of
        (Inr (Some r), st') \<Rightarrow> (Inr r, st')
      | (Inr None, st') \<Rightarrow> (lg n, st')
      | (Inl e, st') \<Rightarrow> (Inl e, st'))"

subsection \<open>Plugins used in the examples, and the deferring counterpart of a plugin\<close>

text \<open>
  \<open>result_plugin\<close> always returns the given value and \<open>raising_plugin\<close> always raises
  the given exception; neither touches the context. \<open>host_lines\<close> is a host renderer that
  gives the same lines for every node. \<open>as_deferred p\<close> behaves as \<open>p\<close> except that,
  where \<open>p\<close> raises, it returns \<open>None\<close> after the same change to the context.
\<close>

definition result_plugin :: "string \<Rightarrow> string list option \<Rightarrow> ('n, 's) plugin" where
  "result_plugin nm r = \<lparr>PLUGIN_NAME = nm, apply_plugin = (\<lambda>lg n c. (Inr r, c))\<rparr>"

definition raising_plugin :: "string \<Rightarrow> pyexc \<Rightarrow> ('n, 's) plugin" where
  "raising_plugin nm e = \<lparr>PLUGIN_NAME = nm, apply_plugin = (\<lambda>lg n c. (Inl e, c))\<rparr>"

definition host_lines :: "string list \<Rightarrow> 'n line_gen" where
  "host_lines ls = (\<lambda>n. Inr ls)"

definition as_deferred :: "('n, 's) plugin \<Rightarrow> ('n, 's) plugin" where
  "as_deferred p = p\<lparr>apply_plugin := (\<lambda>lg n c.
      case apply_plugin p lg n c of (Inl e, c') \<Rightarrow> (Inr None, c') | r \<Rightarrow> r)\<rparr>"

text \<open>
  \<open>deferred_state ps lg n c\<close> states, in the words of the specification, that each of
  the plugins \<open>ps\<close>, offered the node in this order, returns \<open>None\<close>; it gives the
  context they leave behind.
\<close>

fun deferred_state :: "('n, 's) plugin list \<Rightarrow> 'n line_gen \<Rightarrow> 'n \<Rightarrow> 's \<Rightarrow> 's option" where
  "deferred_state [] lg n c = Some c"
| "deferred_state (p # ps) lg n c =
     (case apply_plugin p lg n c of
        (Inr None, c') \<Rightarrow> deferred_state ps lg n c'
      | _ \<Rightarrow> None)"

section \<open>Python values and strings\<close>

text \<open>
  The values that travel through the configuration code: what a TOML document holds once
  parsed, what a command-line option is coerced to, what a profile's settings contain.
  A dictionary is an association list with distinct keys, in insertion order. A float is
  kept as the decimal text it was read from: \<open>VFloat s\<close> stands for \<open>float(s)\<close>.
\<close>

datatype pyval =
    VNone | VBool bool | VInt int | VFloat string | VStr string
  | VList "pyval list" | VDict "(string \<times> pyval) list"

type_synonym pydict = "(string \<times> pyval) list"

text \<open>\<open>k in d\<close>, \<open>d.get(k)\<close> and \<open>d[k] = v\<close> on a dictionary.\<close>

definition dict_has :: "(string \<times> 'v) list \<Rightarrow> string \<Rightarrow> bool" where
  "dict_has d k = (map_of d k \<noteq> None)"

definition dict_get :: "(string \<times> 'v) list \<Rightarrow> string \<Rightarrow> 'v option" where
  "dict_get d k = map_of d k"

fun dict_set :: "(string \<times> 'v) list \<Rightarrow> string \<Rightarrow> 'v \<Rightarrow> (string \<times> 'v) list" where
  "dict_set [] k v = [(k, v)]"
| "dict_set ((k', v') # d) k v = (if k' = k then (k, v) # d else (k', v') # dict_set d k v)"

text \<open>
  Characters are read as the code points 0 to 255. On this range \<open>str.isspace\<close> holds
  for 9 to 13, 28 to 32, 133 and 160; \<open>str.isdigit\<close> holds for the ten decimal digits
  and for the superscripts 178, 179 and 185, which \<open>int\<close> and \<open>float\<close> do not accept;
  \<open>str.lower\<close> maps each of \<open>upper_chars\<close> (A to Z, and 192 to 222 without 215)
  to the character 32 places later and leaves the others.
\<close>

definition isspace_char :: "char \<Rightarrow> bool" where
  "isspace_char c = (c \<in> set [CHR 0x09, CHR 0x0A, CHR 0x0B, CHR 0x0C, CHR 0x0D,
      CHR 0x1C, CHR 0x1D, CHR 0x1E, CHR 0x1F, CHR 0x20, CHR 0x85, CHR 0xA0])"

definition isdecimal_char :: "char \<Rightarrow> bool" where
  "isdecimal_char c = (c \<in> set ''0123456789'')"

definition isdigit_char :: "char \<Rightarrow> bool" where
  "isdigit_char c = (c \<in> set ''0123456789'' \<or> c \<in> set [CHR 0xB2, CHR 0xB3, CHR 0xB9])"

definition upper_chars :: string where
  "upper_chars = ''ABCDEFGHIJKLMNOPQRSTUVWXYZ'' @
     [CHR 0xC0, CHR 0xC1, CHR 0xC2, CHR 0xC3, CHR 0xC4, CHR 0xC5, CHR 0xC6, CHR 0xC7, CHR 0xC8, CHR 0xC9, CHR 0xCA, CHR 0xCB, CHR 0xCC, CHR 0xCD, CHR 0xCE, CHR 0xCF, CHR 0xD0, CHR 0xD1, CHR 0xD2, CHR 0xD3, CHR 0xD4, CHR 0xD5, CHR 0xD6, CHR 0xD8, CHR 0xD9, CHR 0xDA, CHR 0xDB, CHR 0xDC, CHR 0xDD, CHR 0xDE]"

definition lower_chars :: string where
  "lower_chars = ''abcdefghijklmnopqrstuvwxyz'' @
     [CHR 0xE0, CHR 0xE1, CHR 0xE2, CHR 0xE3, CHR 0xE4, CHR 0xE5, CHR 0xE6, CHR 0xE7, CHR 0xE8, CHR 0xE9, CHR 0xEA, CHR 0xEB, CHR 0xEC, CHR 0xED, CHR 0xEE, CHR 0xEF, CHR 0xF0, CHR 0xF1, CHR 0xF2, CHR 0xF3, CHR 0xF4, CHR 0xF5, CHR 0xF6, CHR 0xF8, CHR 0xF9, CHR 0xFA, CHR 0xFB, CHR 0xFC, CHR 0xFD, CHR 0xFE]"

definition lower_char :: "char \<Rightarrow> char" where
  "lower_char c = (case map_of (zip upper_chars lower_chars) c of Some l \<Rightarrow> l | None \<Rightarrow> c)"

definition strip :: "string \<Rightarrow> string" where
  "strip s = rev (dropWhile isspace_char (rev (dropWhile isspace_char s)))"

definition lower :: "string \<Rightarrow> string" where
  "lower s = map lower_char s"

definition isdigit :: "string \<Rightarrow> bool" where
  "isdigit s = (s \<noteq> [] \<and> (\<forall>c \<in> set s. isdigit_char c))"

text \<open>\<open>s.split(sep, 1)\<close> and \<open>s.split(sep)\<close> for a one-character separator.\<close>

definition split1 :: "char \<Rightarrow> string \<Rightarrow> string list" where
  "split1 sep s =
     (if sep \<in> set s
      then [takeWhile (\<lambda>c. c \<noteq> sep) s, tl (dropWhile (\<lambda>c. c \<noteq> sep) s)]
      else [s])"

fun split_all :: "char \<Rightarrow> string \<Rightarrow> string list" where
  "split_all sep [] = [[]]"
| "split_all sep (c # cs) =
     (case split_all sep cs of
        [] \<Rightarrow> [[c]]
      | w # ws \<Rightarrow> if c = sep then [] # w # ws else (c # w) # ws)"

text \<open>\<open>int(s)\<close> and \<open>float(s)\<close> on the strings the coercion passes to them.\<close>

definition digit_val :: "char \<Rightarrow> int" where
  "digit_val c = int (of_char c) - 48"

definition decimal_value :: "string \<Rightarrow> int" where
  "decimal_value s = foldl (\<lambda>a c. 10 * a + digit_val c) 0 s"

definition py_int :: "string \<Rightarrow> pyexc + pyval" where
  "py_int s =
     (if s \<noteq> [] \<and> (\<forall>c \<in> set s. isdecimal_char c)
      then Inr (VInt (decimal_value s))
      else Inl (Exc ValueError (''invalid literal for int() with base 10: '' @ s)))"

definition py_float :: "string \<Rightarrow> pyexc + pyval" where
  "py_float s =
     (if (\<exists>c \<in> set s. isdecimal_char c) \<and> (\<forall>c \<in> set s. isdecimal_char c \<or> c = CHR ''.'')
         \<and> count_list s (CHR ''.'') \<le> 1
      then Inr (VFloat s)
      else Inl (Exc ValueError (''could not convert string to float: '' @ s)))"

text \<open>
  Truth value of an object in a condition. A float is false when it is zero, which is
  read off its text: no digit other than 0 in the mantissa.
\<close>

fun truthy :: "pyval \<Rightarrow> bool" where
  "truthy VNone = False"
| "truthy (VBool b) = b"
| "truthy (VInt i) = (i \<noteq> 0)"
| "truthy (VFloat s) =
     (\<exists>c \<in> set (takeWhile (\<lambda>c. c \<noteq> CHR ''e'' \<and> c \<noteq> CHR ''E'') s). c \<in> set ''123456789nf'')"
| "truthy (VStr s) = (s \<noteq> [])"
| "truthy (VList xs) = (xs \<noteq> [])"
| "truthy (VDict d) = (d \<noteq> [])"

section \<open>The configuration manager (plugins/__init__.py)\<close>

datatype PluginState = ENABLED | DISABLED | DEFAULT

record PluginConfig =
  name :: string
  state :: PluginState
  options :: pydict
  version_requirement :: pyval

text \<open>\<open>PluginConfig(name=nm)\<close>: the dataclass defaults.\<close>

definition new_PluginConfig :: "string \<Rightarrow> PluginConfig" where
  "new_PluginConfig nm = \<lparr>name = nm, state = DEFAULT, options = [], version_requirement = VNone\<rparr>"

text \<open>
  The three global fields hold whatever value the manifest gives under their key; the
  code assigns it unchecked and later tests it in a condition.
\<close>

record PluginsConfig =
  plugin_configs :: "(string \<times> PluginConfig) list"
  discovery_paths :: pyval
  disable_all :: pyval
  enable_by_default :: pyval

definition new_PluginsConfig :: PluginsConfig where
  "new_PluginsConfig = \<lparr>plugin_configs = [], discovery_paths = VList [],
     disable_all = VBool False, enable_by_default = VBool True\<rparr>"

text \<open>The manager's state: the configuration it holds, and what it has printed to stderr.\<close>

record ConfigurationManager =
  plugins_config :: PluginsConfig
  stderr :: "string list"

definition new_ConfigurationManager :: ConfigurationManager where
  "new_ConfigurationManager = \<lparr>plugins_config = new_PluginsConfig, stderr = []\<rparr>"

text \<open>Sequencing: an exception raised by a step leaves the whole block.\<close>

definition exc_bind :: "pyexc + 'a \<Rightarrow> ('a \<Rightarrow> pyexc + 'b) \<Rightarrow> pyexc + 'b" where
  "exc_bind r f = (case r of Inl e \<Rightarrow> Inl e | Inr x \<Rightarrow> f x)"

subsection \<open>What the code asks of a parsed value\<close>

text \<open>
  The manifest is read with \<open>.get\<close>, \<open>in\<close>, indexing by a string key and
  \<open>.items()\<close>. Each is defined on a dictionary; on another kind of value Python either
  answers in its own way (\<open>in\<close> on a list or a string) or raises.
\<close>

fun startswith :: "string \<Rightarrow> string \<Rightarrow> bool" where
  "startswith s [] = True"
| "startswith [] (p # ps) = False"
| "startswith (c # cs) (p # ps) = (c = p \<and> startswith cs ps)"

definition endswith :: "string \<Rightarrow> string \<Rightarrow> bool" where
  "endswith s suffix = startswith (rev s) (rev suffix)"

fun contains_str :: "string \<Rightarrow> string \<Rightarrow> bool" where
  "contains_str [] k = (k = [])"
| "contains_str (c # cs) k = (startswith (c # cs) k \<or> contains_str cs k)"

fun py_get :: "pyval \<Rightarrow> string \<Rightarrow> pyval \<Rightarrow> pyexc + pyval" where
  "py_get (VDict d) k dflt = Inr (case map_of d k of Some v \<Rightarrow> v | None \<Rightarrow> dflt)"
| "py_get v k dflt = Inl (Exc AttributeError ''object has no attribute get'')"

fun py_contains :: "string \<Rightarrow> pyval \<Rightarrow> pyexc + bool" where
  "py_contains k (VDict d) = Inr (dict_has d k)"
| "py_contains k (VList xs) = Inr (VStr k \<in> set xs)"
| "py_contains k (VStr s) = Inr (contains_str s k)"
| "py_contains k v = Inl (Exc TypeError ''argument is not iterable'')"

fun py_getitem :: "pyval \<Rightarrow> string \<Rightarrow> pyexc + pyval" where
  "py_getitem (VDict d) k = (case map_of d k of Some v \<Rightarrow> Inr v | None \<Rightarrow> Inl (Exc KeyError k))"
| "py_getitem (VList xs) k = Inl (Exc TypeError ''list indices must be integers or slices, not str'')"
| "py_getitem (VStr s) k = Inl (Exc TypeError ''string indices must be integers, not str'')"
| "py_getitem v k = Inl (Exc TypeError ''object is not subscriptable'')"

fun py_items :: "pyval \<Rightarrow> pyexc + (string \<times> pyval) list" where
  "py_items (VDict d) = Inr d"
| "py_items v = Inl (Exc AttributeError ''object has no attribute items'')"

subsection \<open>\<open>load_from_pyproject\<close>\<close>

text \<open>
  The file system as the loader meets it. For a path, either nothing exists there, or
  opening and parsing the file raises, or \<open>tomli.load\<close> returns a dictionary.
  Directories are lists of components, the root being the empty list.
\<close>

datatype toml_file = NoFile | Raises pyexc | Loads pydict

type_synonym filesystem = "string \<Rightarrow> toml_file"

definition path_str :: "string list \<Rightarrow> string" where
  "path_str comps = concat (map (\<lambda>c. ''/'' @ c) comps)"

text \<open>The search upward from the working directory; the loop stops at the root.\<close>

function find_pyproject :: "filesystem \<Rightarrow> string list \<Rightarrow> string option" where
  "find_pyproject fs current_dir =
     (if current_dir = [] then None
      else if fs (path_str (current_dir @ [''pyproject.toml''])) \<noteq> NoFile
           then Some (path_str (current_dir @ [''pyproject.toml'']))
           else find_pyproject fs (butlast current_dir))"
  by pat_completeness auto
termination
  by (relation "measure (\<lambda>(fs, d). length d)") auto

text \<open>The body of the \<open>for\<close> loop over the entries of the plugins table.\<close>

definition plugin_from_entry :: "string \<Rightarrow> pyval \<Rightarrow> PluginConfig" where
  "plugin_from_entry plugin_name config =
     (case config of
        VDict d \<Rightarrow>
          (let pc1 = (case map_of d ''enabled'' of
                        Some en \<Rightarrow> (new_PluginConfig plugin_name)
                                      \<lparr>state := if truthy en then ENABLED else DISABLED\<rparr>
                      | None \<Rightarrow> new_PluginConfig plugin_name);
               pc2 = (case map_of d ''options'' of
                        Some (VDict od) \<Rightarrow> pc1\<lparr>options := od\<rparr>
                      | _ \<Rightarrow> pc1)
           in (case map_of d ''version'' of
                 Some v \<Rightarrow> pc2\<lparr>version_requirement := v\<rparr>
               | None \<Rightarrow> pc2))
      | VBool b \<Rightarrow> (new_PluginConfig plugin_name)\<lparr>state := if b then ENABLED else DISABLED\<rparr>
      | _ \<Rightarrow> new_PluginConfig plugin_name)"

fun load_plugin_entries :: "(string \<times> pyval) list \<Rightarrow> PluginsConfig \<Rightarrow> PluginsConfig" where
  "load_plugin_entries [] cfg = cfg"
| "load_plugin_entries ((plugin_name, config) # es) cfg =
     (if plugin_name \<in> {''discovery_paths'', ''disable_all'', ''enable_by_default''}
      then load_plugin_entries es cfg
      else load_plugin_entries es
             (cfg\<lparr>plugin_configs :=
                  dict_set (plugin_configs cfg) plugin_name (plugin_from_entry plugin_name config)\<rparr>))"

text \<open>\<open>if k in plugins_config: self.plugins_config.<field> = plugins_config[k]\<close>.\<close>

definition load_global ::
  "pyval \<Rightarrow> string \<Rightarrow> (pyval \<Rightarrow> PluginsConfig \<Rightarrow> PluginsConfig) \<Rightarrow> PluginsConfig
     \<Rightarrow> pyexc + PluginsConfig" where
  "load_global pc k assign cfg =
     (case py_contains k pc of
        Inl e \<Rightarrow> Inl e
      | Inr False \<Rightarrow> Inr cfg
      | Inr True \<Rightarrow> (case py_getitem pc k of Inl e \<Rightarrow> Inl e | Inr v \<Rightarrow> Inr (assign v cfg)))"

text \<open>What the \<open>try\<close> block does with the loaded document.\<close>

definition extract_plugins :: "pydict \<Rightarrow> PluginsConfig \<Rightarrow> pyexc + PluginsConfig" where
  "extract_plugins pyproject_data cfg =
     exc_bind (py_get (VDict pyproject_data) ''tool'' (VDict [])) (\<lambda>tool.
     exc_bind (py_get tool ''black'' (VDict [])) (\<lambda>black_config.
     exc_bind (py_get black_config ''plugins'' (VDict [])) (\<lambda>pc.
     exc_bind (load_global pc ''discovery_paths'' (\<lambda>v c. c\<lparr>discovery_paths := v\<rparr>) cfg) (\<lambda>cfg1.
     exc_bind (load_global pc ''disable_all'' (\<lambda>v c. c\<lparr>disable_all := v\<rparr>) cfg1) (\<lambda>cfg2.
     exc_bind (load_global pc ''enable_by_default'' (\<lambda>v c. c\<lparr>enable_by_default := v\<rparr>) cfg2) (\<lambda>cfg3.
     exc_bind (py_items pc) (\<lambda>items.
     Inr (load_plugin_entries items cfg3))))))))"

text \<open>The handler: \<open>except (tomli.TOMLDecodeError, OSError)\<close>.\<close>

definition load_handler_catches :: "pyexc \<Rightarrow> bool" where
  "load_handler_catches e = (isinstance e TOMLDecodeError \<or> isinstance e OSError)"

text \<open>
  \<open>ConfigurationManager.load_from_pyproject(path)\<close>. The result is \<open>Inl e\<close> when the
  exception \<open>e\<close> leaves the method and \<open>Inr\<close> of the manager's new state when it
  returns. An exception of the \<open>try\<close> block that the handler catches is raised before
  any field is assigned, so the handler's branch keeps the configuration.
\<close>

definition load_from_pyproject ::
  "filesystem \<Rightarrow> string list \<Rightarrow> string option \<Rightarrow> ConfigurationManager
     \<Rightarrow> pyexc + ConfigurationManager" where
  "load_from_pyproject fs cwd path cm =
     (case (case path of None \<Rightarrow> find_pyproject fs cwd | Some p \<Rightarrow> Some p) of
        None \<Rightarrow> Inr cm
      | Some p \<Rightarrow>
          if p = [] \<or> fs p = NoFile then Inr cm
          else (case (case fs p of
                        NoFile \<Rightarrow> Inr (plugins_config cm)
                      | Raises e \<Rightarrow> Inl e
                      | Loads pyproject_data \<Rightarrow> extract_plugins pyproject_data (plugins_config cm)) of
                  Inr cfg \<Rightarrow> Inr (cm\<lparr>plugins_config := cfg\<rparr>)
                | Inl e \<Rightarrow>
                    if load_handler_catches e
                    then Inr (cm\<lparr>stderr := stderr cm @ [''Error loading pyproject.toml: '' @ exc_msg e]\<rparr>)
                    else Inl e))"

subsection \<open>\<open>update_from_cli\<close>\<close>

text \<open>
  The parsed command line. An attribute that is missing, \<open>None\<close> or false is \<open>None\<close>
  (\<open>False\<close> for the flag): the code tests \<open>hasattr(...) and ...\<close> each time.
\<close>

record cli_args =
  disable_all_plugins :: bool
  plugin_config :: "string option"
  plugin :: "string list option"
  disable_plugin :: "string list option"

text \<open>The conversion of an option value, in the order of the \<open>if\<close>/\<open>elif\<close> chain.\<close>

definition coerce_value :: "string \<Rightarrow> pyexc + pyval" where
  "coerce_value v =
     (if lower v = ''true'' then Inr (VBool True)
      else if lower v = ''false'' then Inr (VBool False)
      else if isdigit v then py_int v
      else if isdigit (remove1 (CHR ''.'') v) \<and> count_list v (CHR ''.'') \<le> 1 then py_float v
      else Inr (VStr v))"

text \<open>The loop over \<open>option_pairs\<close>; a pair without \<open>=\<close> is skipped.\<close>

fun parse_options :: "string list \<Rightarrow> pydict \<Rightarrow> pyexc + pydict" where
  "parse_options [] opts = Inr opts"
| "parse_options (pair # pairs) opts =
     (if CHR ''='' \<in> set pair
      then (case split1 (CHR ''='') pair of
              [key, val] \<Rightarrow>
                (case coerce_value (strip val) of
                   Inl e \<Rightarrow> Inl e
                 | Inr v \<Rightarrow> parse_options pairs (dict_set opts (strip key) v))
            | _ \<Rightarrow> Inl (Exc ValueError ''not enough values to unpack''))
      else parse_options pairs opts)"

text \<open>\<open>d[nm]\<close> after \<open>if nm not in d: d[nm] = PluginConfig(name=nm)\<close>.\<close>

definition get_or_create :: "(string \<times> PluginConfig) list \<Rightarrow> string \<Rightarrow> PluginConfig" where
  "get_or_create cfgs nm = (case dict_get cfgs nm of Some pc \<Rightarrow> pc | None \<Rightarrow> new_PluginConfig nm)"

text \<open>One \<open>--plugin\<close> specification.\<close>

definition enable_spec :: "string \<Rightarrow> PluginsConfig \<Rightarrow> pyexc + PluginsConfig" where
  "enable_spec plugin_spec cfg =
     (case split1 (CHR '':'') plugin_spec of
        [] \<Rightarrow> Inl (Exc IndexError ''list index out of range'')
      | p0 # rest \<Rightarrow>
          (let plugin_name = strip p0;
               pc = (get_or_create (plugin_configs cfg) plugin_name)\<lparr>state := ENABLED\<rparr>
           in case (case rest of
                      p1 # _ \<Rightarrow> if p1 \<noteq> [] then parse_options (split_all (CHR '','') p1) (options pc)
                                else Inr (options pc)
                    | [] \<Rightarrow> Inr (options pc)) of
                Inl e \<Rightarrow> Inl e
              | Inr opts \<Rightarrow>
                  Inr (cfg\<lparr>plugin_configs :=
                         dict_set (plugin_configs cfg) plugin_name (pc\<lparr>options := opts\<rparr>)\<rparr>)))"

fun enable_specs :: "string list \<Rightarrow> PluginsConfig \<Rightarrow> pyexc + PluginsConfig" where
  "enable_specs [] cfg = Inr cfg"
| "enable_specs (plugin_spec # specs) cfg =
     (case enable_spec plugin_spec cfg of Inl e \<Rightarrow> Inl e | Inr cfg' \<Rightarrow> enable_specs specs cfg')"

text \<open>One \<open>--disable-plugin\<close> name; the name is used as given.\<close>

definition disable_name :: "string \<Rightarrow> PluginsConfig \<Rightarrow> PluginsConfig" where
  "disable_name plugin_name cfg =
     cfg\<lparr>plugin_configs :=
        dict_set (plugin_configs cfg) plugin_name
          ((get_or_create (plugin_configs cfg) plugin_name)\<lparr>state := DISABLED\<rparr>)\<rparr>"

fun disable_names :: "string list \<Rightarrow> PluginsConfig \<Rightarrow> PluginsConfig" where
  "disable_names [] cfg = cfg"
| "disable_names (plugin_name # names) cfg = disable_names names (disable_name plugin_name cfg)"

text \<open>The value of a repeated option: the list given, or nothing.\<close>

definition listed :: "'a list option \<Rightarrow> 'a list" where
  "listed l = (case l of Some xs \<Rightarrow> xs | None \<Rightarrow> [])"

text \<open>The first block of \<open>update_from_cli\<close> (global plugin settings).\<close>

definition handle_global_settings ::
  "filesystem \<Rightarrow> string list \<Rightarrow> cli_args \<Rightarrow> ConfigurationManager
     \<Rightarrow> pyexc + ConfigurationManager" where
  "handle_global_settings fs cwd args cm =
     (let cm1 = (if disable_all_plugins args
                 then cm\<lparr>plugins_config := (plugins_config cm)\<lparr>disable_all := VBool True\<rparr>\<rparr>
                 else cm)
      in case plugin_config args of
           Some p \<Rightarrow> if p \<noteq> [] then load_from_pyproject fs cwd (Some p) cm1 else Inr cm1
         | None \<Rightarrow> Inr cm1)"

text \<open>
  \<open>ConfigurationManager.update_from_cli\<close>: the global settings, then the
  \<open>--plugin\<close> specifications, then the \<open>--disable-plugin\<close> names.
\<close>

definition update_from_cli ::
  "filesystem \<Rightarrow> string list \<Rightarrow> cli_args \<Rightarrow> ConfigurationManager
     \<Rightarrow> pyexc + ConfigurationManager" where
  "update_from_cli fs cwd args cm =
     (case handle_global_settings fs cwd args cm of
        Inl e \<Rightarrow> Inl e
      | Inr cm2 \<Rightarrow>
          (case enable_specs (listed (plugin args)) (plugins_config cm2) of
             Inl e \<Rightarrow> Inl e
           | Inr cfg3 \<Rightarrow>
               Inr (cm2\<lparr>plugins_config := disable_names (listed (disable_plugin args)) cfg3\<rparr>)))"

subsection \<open>How the registry resolves a plugin's state (plugins/registry.py)\<close>

text \<open>
  The decision taken in \<open>PluginRegistry.configure_plugins\<close> for a discovered plugin,
  once \<open>disable_all\<close> has been found false.
\<close>

definition plugin_enabled :: "PluginsConfig \<Rightarrow> string \<Rightarrow> bool" where
  "plugin_enabled config nm =
     (case state (get_or_create (plugin_configs config) nm) of
        ENABLED \<Rightarrow> True
      | DISABLED \<Rightarrow> False
      | DEFAULT \<Rightarrow> truthy (enable_by_default config))"

subsection \<open>Names used to state the properties of the configuration\<close>

text \<open>
  The plugin name that a \<open>--plugin\<close> specification denotes (the text before the first
  colon, stripped), the state recorded for a plugin, the \<open>key=value\<close> pairs of a
  specification with key and value stripped (\<open>spec_pairs\<close>, in the order given), and
  a file system holding one file.
\<close>

definition plugin_name_of :: "string \<Rightarrow> string" where
  "plugin_name_of plugin_spec = strip (takeWhile (\<lambda>c. c \<noteq> CHR '':'') plugin_spec)"

definition entry_state :: "ConfigurationManager \<Rightarrow> string \<Rightarrow> PluginState option" where
  "entry_state cm nm = map_option state (dict_get (plugin_configs (plugins_config cm)) nm)"

definition pair_key :: "string \<Rightarrow> string" where
  "pair_key pair = strip (takeWhile (\<lambda>c. c \<noteq> CHR ''='') pair)"

definition pair_value :: "string \<Rightarrow> string" where
  "pair_value pair = strip (tl (dropWhile (\<lambda>c. c \<noteq> CHR ''='') pair))"

definition spec_pairs :: "string \<Rightarrow> (string \<times> string) list" where
  "spec_pairs plugin_spec =
     (if CHR '':'' \<in> set plugin_spec
      then map (\<lambda>pair. (pair_key pair, pair_value pair))
             (filter (\<lambda>pair. CHR ''='' \<in> set pair)
                (split_all (CHR '','') (tl (dropWhile (\<lambda>c. c \<noteq> CHR '':'') plugin_spec))))
      else [])"

definition only_file :: "string \<Rightarrow> toml_file \<Rightarrow> filesystem" where
  "only_file p f = (\<lambda>q. if q = p then f else NoFile)"

definition no_files :: filesystem where
  "no_files = (\<lambda>p. NoFile)"

definition example_args :: cli_args where
  "example_args = \<lparr>disable_all_plugins = False, plugin_config = None,
     plugin = Some [''foo:x=1'', '' bar ''], disable_plugin = Some [''foo'']\<rparr>"

definition example_updated :: ConfigurationManager where
  "example_updated =
     \<lparr>plugins_config = \<lparr>plugin_configs =
        [(''foo'', \<lparr>name = ''foo'', state = DISABLED, options = [(''x'', VInt 1)],
                    version_requirement = VNone\<rparr>),
         (''bar'', \<lparr>name = ''bar'', state = ENABLED, options = [],
                    version_requirement = VNone\<rparr>)],
        discovery_paths = VList [], disable_all = VBool False, enable_by_default = VBool True\<rparr>,
      stderr = []\<rparr>"

definition example_manifest_config :: PluginsConfig where
  "example_manifest_config = new_PluginsConfig\<lparr>plugin_configs :=
     [(''foo'', \<lparr>name = ''foo'', state = DISABLED,
                 options = [(''x'', VStr ''old''), (''keep'', VInt 7)],
                 version_requirement = VNone\<rparr>)]\<rparr>"

definition example_merged_config :: PluginsConfig where
  "example_merged_config = new_PluginsConfig\<lparr>plugin_configs :=
     [(''foo'', \<lparr>name = ''foo'', state = ENABLED,
                 options = [(''x'', VInt 1), (''keep'', VInt 7), (''y'', VFloat ''2.5''),
                            (''z'', VBool True), (''w'', VStr ''abc'')],
                 version_requirement = VNone\<rparr>)]\<rparr>"

text \<open>The same name, written with a leading blank, given to both options.\<close>

definition padded_args :: cli_args where
  "padded_args = \<lparr>disable_all_plugins = False, plugin_config = None,
     plugin = Some ['' foo''], disable_plugin = Some ['' foo'']\<rparr>"

definition padded_updated :: ConfigurationManager where
  "padded_updated =
     \<lparr>plugins_config = \<lparr>plugin_configs =
        [(''foo'', \<lparr>name = ''foo'', state = ENABLED, options = [],
                    version_requirement = VNone\<rparr>),
         ('' foo'', \<lparr>name = '' foo'', state = DISABLED, options = [],
                     version_requirement = VNone\<rparr>)],
        discovery_paths = VList [], disable_all = VBool False, enable_by_default = VBool True\<rparr>,
      stderr = []\<rparr>"

section \<open>Configuration profiles (profiles.py)\<close>

record ConfigurationProfile =
  name :: string
  description :: string
  version :: string
  settings :: pydict
  parent :: "string option"

text \<open>\<open>ProfileRegistry\<close>: the dictionary of profiles by name, and the three directories.\<close>

record ProfileRegistry =
  profiles :: "(string \<times> ConfigurationProfile) list"
  system_profiles_dir :: string
  user_profiles_dir :: string
  project_profiles_dir :: "string option"

definition get_profile :: "ProfileRegistry \<Rightarrow> string \<Rightarrow> ConfigurationProfile option" where
  "get_profile registry nm = dict_get (profiles registry) nm"

definition add_profile :: "ProfileRegistry \<Rightarrow> ConfigurationProfile \<Rightarrow> ProfileRegistry" where
  "add_profile registry profile =
     registry\<lparr>profiles := dict_set (profiles registry) (name profile) profile\<rparr>"

text \<open>\<open>d.update(e)\<close>: each item of \<open>e\<close>, in order, is stored in \<open>d\<close>.\<close>

definition dict_update :: "(string \<times> 'v) list \<Rightarrow> (string \<times> 'v) list \<Rightarrow> (string \<times> 'v) list" where
  "dict_update d e = foldl (\<lambda>acc (k, v). dict_set acc k v) d e"

text \<open>
  \<open>ConfigurationProfile.get_effective_configuration(profiles_registry)\<close>. The method
  calls itself on the parent profile; along a cycle of parents the call does not return a
  configuration, which is the value \<open>None\<close> here. The registry argument is optional in
  the source and is \<open>None\<close> when left out.
\<close>

partial_function (option) get_effective_configuration ::
  "ProfileRegistry option \<Rightarrow> ConfigurationProfile \<Rightarrow> pydict option" where
  "get_effective_configuration profiles_registry self =
     (case parent self of
        None \<Rightarrow> Some (settings self)
      | Some pn \<Rightarrow>
          if pn = [] then Some (settings self)
          else (case profiles_registry of
                  None \<Rightarrow> Some (settings self)
                | Some registry \<Rightarrow>
                    (case get_profile registry pn of
                       None \<Rightarrow> Some (settings self)
                     | Some parent_profile \<Rightarrow>
                         Option.bind (get_effective_configuration profiles_registry parent_profile)
                           (\<lambda>config. Some (dict_update config (settings self))))))"

text \<open>\<open>to_dict\<close>, the document that \<open>save_profile\<close> hands to the TOML writer.\<close>

definition to_dict :: "ConfigurationProfile \<Rightarrow> pyval" where
  "to_dict self = VDict
     [(''name'', VStr (name self)), (''description'', VStr (description self)),
      (''version'', VStr (version self)), (''settings'', VDict (settings self)),
      (''parent'', (case parent self of None \<Rightarrow> VNone | Some pn \<Rightarrow> VStr pn))]"

text \<open>
  The profile files. A file system is the list of its files, each a path with its
  content. \<open>tomli_w.dump\<close> and \<open>tomli.load\<close> are outside this repository:
  \<open>dump\<close> gives the content written for a document, or the exception raised while
  the directory is created, the file opened and the document written; \<open>parse\<close> gives
  the document read from a content, or the exception raised while the file is opened and
  read.
\<close>



text \<open>
  \<open>ConfigurationProfile.from_dict\<close>. On a value that is not a dictionary \<open>.get\<close>
  raises. The dataclass takes whatever the dictionary holds; the record above has the
  declared types only, so a dictionary with a field of another type has no counterpart
  here, which is the result \<open>None\<close>.
\<close>

definition field :: "pydict \<Rightarrow> string \<Rightarrow> pyval \<Rightarrow> pyval" where
  "field d k dflt = (case dict_get d k of Some v \<Rightarrow> v | None \<Rightarrow> dflt)"

fun as_str :: "pyval \<Rightarrow> string option" where
  "as_str (VStr s) = Some s"
| "as_str v = None"

fun as_dict :: "pyval \<Rightarrow> pydict option" where
  "as_dict (VDict d) = Some d"
| "as_dict v = None"

fun as_optional_str :: "pyval \<Rightarrow> string option option" where
  "as_optional_str VNone = Some None"
| "as_optional_str (VStr s) = Some (Some s)"
| "as_optional_str v = None"

fun from_dict :: "pyval \<Rightarrow> (pyexc + ConfigurationProfile) option" where
  "from_dict (VDict d) =
     Option.bind (as_str (field d ''name'' (VStr []))) (\<lambda>n.
     Option.bind (as_str (field d ''description'' (VStr []))) (\<lambda>de.
     Option.bind (as_str (field d ''version'' (VStr ''1.0''))) (\<lambda>ve.
     Option.bind (as_dict (field d ''settings'' (VDict []))) (\<lambda>s.
     Option.bind (as_optional_str (field d ''parent'' VNone)) (\<lambda>pa.
     Some (Inr \<lparr>name = n, description = de, version = ve, settings = s, parent = pa\<rparr>))))))"
| "from_dict v = Some (Inl (Exc AttributeError ''object has no attribute get''))"

text \<open>
  The body of the \<open>try\<close> block in \<open>_load_profiles_from_dir\<close> for one file, and the
  loop over the files of a directory. The handler is \<open>except Exception\<close> and prints
  to stdout.
\<close>

definition try_load_file ::
  "('b \<Rightarrow> pyexc + pydict) \<Rightarrow> 'b \<Rightarrow> ProfileRegistry \<Rightarrow> (pyexc + ProfileRegistry) option" where
  "try_load_file parse content registry =
     (case parse content of
        Inl e \<Rightarrow> Some (Inl e)
      | Inr data \<Rightarrow>
          (case dict_get data ''profile'' of
             None \<Rightarrow> Some (Inr registry)
           | Some profile_data \<Rightarrow>
               (case from_dict profile_data of
                  None \<Rightarrow> None
                | Some (Inl e) \<Rightarrow> Some (Inl e)
                | Some (Inr profile) \<Rightarrow> Some (Inr (add_profile registry profile)))))"

fun load_profiles_from_dir ::
  "('b \<Rightarrow> pyexc + pydict) \<Rightarrow> (string \<times> 'b) list \<Rightarrow> ProfileRegistry \<times> string list
     \<Rightarrow> (pyexc + ProfileRegistry \<times> string list) option" where
  "load_profiles_from_dir parse [] st = Some (Inr st)"
| "load_profiles_from_dir parse ((file_path, content) # rest) st =
     (case try_load_file parse content (fst st) of
        None \<Rightarrow> None
      | Some (Inr registry') \<Rightarrow> load_profiles_from_dir parse rest (registry', snd st)
      | Some (Inl e) \<Rightarrow>
          if isinstance e Exception
          then load_profiles_from_dir parse rest
                 (fst st, snd st @ [''Error loading profile from '' @ file_path @ '': '' @ exc_msg e])
          else Some (Inl e))"

text \<open>\<open>directory.glob("*.toml")\<close>: the files directly in the directory with that ending.\<close>

definition glob_toml :: "(string \<times> 'b) list \<Rightarrow> string \<Rightarrow> (string \<times> 'b) list" where
  "glob_toml fs directory =
     filter (\<lambda>(file_path, content).
               startswith file_path (directory @ ''/'')
               \<and> CHR ''/'' \<notin> set (drop (length directory + 1) file_path)
               \<and> endswith file_path ''.toml'') fs"

text \<open>
  \<open>ProfileRegistry()\<close>: \<open>__init__\<close> and \<open>_load_profiles\<close>, for the two
  directories given; no project directory is set. A directory that does not exist has no
  files. Creating the user directory is left out.
\<close>

definition new_ProfileRegistry ::
  "('b \<Rightarrow> pyexc + pydict) \<Rightarrow> string \<Rightarrow> string \<Rightarrow> (string \<times> 'b) list \<Rightarrow> string list
     \<Rightarrow> (pyexc + ProfileRegistry \<times> string list) option" where
  "new_ProfileRegistry parse sysdir userdir fs out =
     (case load_profiles_from_dir parse (glob_toml fs sysdir)
             (\<lparr>profiles = [], system_profiles_dir = sysdir, user_profiles_dir = userdir,
               project_profiles_dir = None\<rparr>, out) of
        Some (Inr st) \<Rightarrow> load_profiles_from_dir parse (glob_toml fs userdir) st
      | r \<Rightarrow> r)"


subsection \<open>The built-in profiles and the module-level functions\<close>





subsection \<open>Examples for the profiles\<close>

text \<open>
  A registry with no profile, a writer and a reader for which the content of a file is
  the document itself, and the three profiles of the inheritance example.
\<close>

definition empty_registry :: ProfileRegistry where
  "empty_registry = \<lparr>profiles = [], system_profiles_dir = ''/black/profiles'',
     user_profiles_dir = ''/home/.black/profiles'', project_profiles_dir = None\<rparr>"


fun plain_parse :: "pyval \<Rightarrow> pyexc + pydict" where
  "plain_parse (VDict d) = Inr d"
| "plain_parse v = Inl (Exc TOMLDecodeError ''invalid document'')"

definition profile_A :: ConfigurationProfile where
  "profile_A = \<lparr>name = ''A'', description = '''', version = ''1.0'',
     settings = [(''line_length'', VInt 88)], parent = None\<rparr>"

definition profile_B :: ConfigurationProfile where
  "profile_B = \<lparr>name = ''B'', description = '''', version = ''1.0'',
     settings = [(''line_length'', VInt 120)], parent = Some ''A''\<rparr>"

definition profile_C :: ConfigurationProfile where
  "profile_C = \<lparr>name = ''C'', description = '''', version = ''1.0'',
     settings = [(''skip_string_normalization'', VBool True)], parent = Some ''B''\<rparr>"

definition registry_ABC :: ProfileRegistry where
  "registry_ABC = foldl add_profile empty_registry [profile_A, profile_B, profile_C]"

text \<open>The length of the chain of parents above each of the three profiles.\<close>

definition depth_ABC :: "ConfigurationProfile \<Rightarrow> nat" where
  "depth_ABC p = (if name p = ''A'' then 0 else if name p = ''B'' then 1 else 2)"








definition my_default :: ConfigurationProfile where
  "my_default = \<lparr>name = ''default'', description = ''mine'', version = ''1.0'',
     settings = [(''line_length'', VInt 100)], parent = Some ''nowhere''\<rparr>"

definition my_default_files :: "(string \<times> pyval) list" where
  "my_default_files =
     [(''/home/.black/profiles/default.toml'', VDict [(''profile'', to_dict my_default)])]"

definition my_default_created :: ProfileRegistry where
  "my_default_created = empty_registry\<lparr>profiles := [(''default'', my_default)]\<rparr>"

section \<open>Plugin discovery (plugins/registry.py)\<close>

text \<open>
  What \<open>discover_plugins\<close> looks at in an attribute of an imported module: whether it
  is a class, its \<open>PLUGIN_NAME\<close> if it has one, and whether it has \<open>apply_plugin\<close>.
\<close>

record module_attr =
  is_type :: bool
  attr_PLUGIN_NAME :: "string option"
  has_apply_plugin :: bool

text \<open>
  The surroundings of a discovery: \<open>os.path.exists\<close>, \<open>os.listdir\<close> (which may
  raise), the three default paths, and \<open>importlib.import_module\<close>. Importing runs the
  code of the module: it finds the module by the search path of the moment, may change
  the search path, and either raises or gives the module, taken here as the list
  \<open>dir(module)\<close> with the attribute under each name.
\<close>

record discovery_env =
  path_exists :: "string \<Rightarrow> bool"
  listdir :: "string \<Rightarrow> pyexc + string list"
  default_paths :: "string list"
  import_module :: "string \<Rightarrow> string list \<Rightarrow> (pyexc + (string \<times> module_attr) list) \<times> string list"

text \<open>The registry's part in a discovery: \<open>sys.path\<close>, the classes found, and stderr.\<close>

record discovery_state =
  sys_path :: "string list"
  plugin_classes :: "(string \<times> module_attr) list"
  printed :: "string list"

text \<open>The loop over \<open>dir(module)\<close>.\<close>

fun register_attrs ::
  "(string \<times> module_attr) list \<Rightarrow> (string \<times> module_attr) list \<Rightarrow> (string \<times> module_attr) list" where
  "register_attrs [] classes = classes"
| "register_attrs ((attr_name, attr) # attrs) classes =
     (case attr_PLUGIN_NAME attr of
        Some plugin_name \<Rightarrow>
          if is_type attr \<and> attr_name \<notin> {''AbstractPlugin'', ''StandardPluginMixin''}
             \<and> has_apply_plugin attr
          then register_attrs attrs (dict_set classes plugin_name attr)
          else register_attrs attrs classes
      | None \<Rightarrow> register_attrs attrs classes)"

text \<open>
  One entry of a directory. The handler around the import is \<open>except ImportError\<close>;
  any other exception leaves the loops.
\<close>

definition load_item ::
  "discovery_env \<Rightarrow> string \<Rightarrow> discovery_state \<Rightarrow> (pyexc + unit) \<times> discovery_state" where
  "load_item env item st =
     (if endswith item ''.py'' \<and> \<not> startswith item ''_''
      then (let module_name = take (length item - 3) item
            in case import_module env module_name (sys_path st) of
                 (Inr attrs, sp) \<Rightarrow>
                   (Inr (), st\<lparr>sys_path := sp,
                               plugin_classes := register_attrs attrs (plugin_classes st)\<rparr>)
               | (Inl e, sp) \<Rightarrow>
                   if isinstance e ImportError
                   then (Inr (), st\<lparr>sys_path := sp,
                           printed := printed st @
                             [''Failed to import potential plugin '' @ module_name @ '': '' @ exc_msg e]\<rparr>)
                   else (Inl e, st\<lparr>sys_path := sp\<rparr>))
      else (Inr (), st))"

fun load_items ::
  "discovery_env \<Rightarrow> string list \<Rightarrow> discovery_state \<Rightarrow> (pyexc + unit) \<times> discovery_state" where
  "load_items env [] st = (Inr (), st)"
| "load_items env (item # items) st =
     (case load_item env item st of
        (Inr u, st') \<Rightarrow> load_items env items st'
      | (Inl e, st') \<Rightarrow> (Inl e, st'))"

fun load_paths ::
  "discovery_env \<Rightarrow> string list \<Rightarrow> discovery_state \<Rightarrow> (pyexc + unit) \<times> discovery_state" where
  "load_paths env [] st = (Inr (), st)"
| "load_paths env (path # paths) st =
     (if \<not> path_exists env path then load_paths env paths st
      else (case listdir env path of
              Inl e \<Rightarrow> (Inl e, st)
            | Inr items \<Rightarrow>
                (case load_items env items st of
                   (Inr u, st') \<Rightarrow> load_paths env paths st'
                 | (Inl e, st') \<Rightarrow> (Inl e, st'))))"

text \<open>The first loop: each existing path not yet on \<open>sys.path\<close> is put in front.\<close>

fun insert_paths :: "discovery_env \<Rightarrow> string list \<Rightarrow> string list \<Rightarrow> string list" where
  "insert_paths env [] sp = sp"
| "insert_paths env (path # paths) sp =
     insert_paths env paths (if path \<notin> set sp \<and> path_exists env path then path # sp else sp)"

text \<open>
  \<open>PluginRegistry.discover_plugins(paths)\<close>; no paths, or an empty list, means the
  default paths. The \<open>finally\<close> clause assigns the saved copy to \<open>sys.path\<close> whether
  the loops ended or an exception left them.
\<close>

definition discover_plugins ::
  "discovery_env \<Rightarrow> string list option \<Rightarrow> discovery_state \<Rightarrow> (pyexc + unit) \<times> discovery_state" where
  "discover_plugins env paths st =
     (let paths' = (case paths of None \<Rightarrow> default_paths env
                    | Some ps \<Rightarrow> if ps = [] then default_paths env else ps);
          original_path = sys_path st;
          st1 = st\<lparr>sys_path := insert_paths env paths' (sys_path st)\<rparr>
      in case load_paths env paths' st1 of
           (r, st2) \<Rightarrow> (r, st2\<lparr>sys_path := original_path\<rparr>))"

subsection \<open>Examples for the discovery\<close>

text \<open>
  A plugin directory with two units: \<open>bad.py\<close>, whose import raises the given
  exception, and \<open>good.py\<close>, which defines a plugin class named \<open>good\<close>.
\<close>

definition good_class :: module_attr where
  "good_class = \<lparr>is_type = True, attr_PLUGIN_NAME = Some ''good'', has_apply_plugin = True\<rparr>"

definition two_units :: "pyexc \<Rightarrow> discovery_env" where
  "two_units e = \<lparr>path_exists = (\<lambda>p. p = ''./plugins''),
     listdir = (\<lambda>p. Inr [''bad.py'', ''good.py'']),
     default_paths = [''./plugins''],
     import_module = (\<lambda>module_name sp.
        if module_name = ''bad'' then (Inl e, sp)
        else (Inr [(''GoodPlugin'', good_class)], sp))\<rparr>"

definition fresh_discovery :: discovery_state where
  "fresh_discovery = \<lparr>sys_path = [''/usr/lib/python3''], plugin_classes = [], printed = []\<rparr>"

section \<open>The import sorter plugin (plugins/examples/import_sorter.py)\<close>

text \<open>
  A syntax node as the plugin reads it: its \<open>type\<close>, its \<open>children\<close>, its
  \<open>value\<close> and the text that \<open>get_code()\<close> gives.
\<close>

datatype node = Node (node_type: string) (children: "node list") (node_value: string) (get_code: string)

text \<open>
  The plugin's attributes. The four prefix sets are lists here; the code only asks
  whether a set is empty and whether some member is a prefix of a name.
\<close>

record ImportSorterPlugin =
  group_order :: "string list"
  stdlib_prefixes :: "string list"
  third_party_prefixes :: "string list"
  first_party_prefixes :: "string list"
  local_prefixes :: "string list"
  sort_case_insensitive :: bool
  sort_by_package_then_name :: bool
  separate_groups_with_blank_line :: bool
  separate_from_imports :: bool
  line_length :: int

text \<open>\<open>__init__\<close>: the default configuration.\<close>

definition new_ImportSorterPlugin :: ImportSorterPlugin where
  "new_ImportSorterPlugin =
     \<lparr>group_order = [''stdlib'', ''third_party'', ''first_party'', ''local''],
      stdlib_prefixes = [], third_party_prefixes = [], first_party_prefixes = [],
      local_prefixes = [''.''], sort_case_insensitive = True, sort_by_package_then_name = True,
      separate_groups_with_blank_line = True, separate_from_imports = True, line_length = 88\<rparr>"

subsection \<open>Module name and group of an import\<close>

fun first_dotted_name :: "node list \<Rightarrow> string option" where
  "first_dotted_name [] = None"
| "first_dotted_name (child # rest) =
     (if node_type child = ''dotted_name'' then Some (get_code child) else first_dotted_name rest)"

fun first_from_name :: "node list \<Rightarrow> string option" where
  "first_from_name [] = None"
| "first_from_name (child # rest) =
     (if node_type child = ''dotted_name'' then Some (get_code child)
      else if node_type child = ''dot'' \<and> node_value child = ''.'' then Some ''.''
      else first_from_name rest)"

definition get_module_name :: "node \<Rightarrow> string" where
  "get_module_name import_node =
     (if node_type import_node = ''import_stmt''
      then (case first_dotted_name (children import_node) of Some m \<Rightarrow> m | None \<Rightarrow> [])
      else if node_type import_node = ''import_from_stmt''
      then (case first_from_name (children import_node) of Some m \<Rightarrow> m | None \<Rightarrow> [])
      else [])"

definition stdlib_modules :: "string list" where
  "stdlib_modules =
     [''sys'', ''os'', ''re'', ''math'', ''time'', ''datetime'', ''collections'', ''itertools'',
      ''functools'', ''random'', ''socket'', ''json'', ''csv'', ''argparse'', ''logging'',
      ''pathlib'', ''typing'', ''abc'', ''io'', ''tempfile'', ''shutil'', ''unittest'']"

text \<open>\<open>module_name.split(".")[0]\<close>.\<close>

definition top_module :: "string \<Rightarrow> string" where
  "top_module module_name = takeWhile (\<lambda>c. c \<noteq> CHR ''.'') module_name"

text \<open>\<open>any(module_name.startswith(p) for p in prefixes)\<close>.\<close>

definition any_prefix :: "string \<Rightarrow> string list \<Rightarrow> bool" where
  "any_prefix module_name prefixes = list_ex (startswith module_name) prefixes"

definition is_stdlib_module :: "string \<Rightarrow> bool" where
  "is_stdlib_module module_name =
     (if CHR ''.'' \<in> set module_name
         \<and> \<not> any_prefix module_name [''xml.'', ''http.'', ''html.'', ''email.'']
      then False
      else top_module module_name \<in> set stdlib_modules)"

definition determine_import_group :: "ImportSorterPlugin \<Rightarrow> node \<Rightarrow> string" where
  "determine_import_group self import_node =
     (let module_name = get_module_name import_node in
      if any_prefix module_name (local_prefixes self) then ''local''
      else if first_party_prefixes self \<noteq> [] \<and> any_prefix module_name (first_party_prefixes self)
      then ''first_party''
      else if third_party_prefixes self \<noteq> [] \<and> any_prefix module_name (third_party_prefixes self)
      then ''third_party''
      else if stdlib_prefixes self \<noteq> []
      then (if any_prefix module_name (stdlib_prefixes self) then ''stdlib'' else ''third_party'')
      else (if is_stdlib_module module_name then ''stdlib'' else ''third_party''))"

subsection \<open>Sort keys and sorting\<close>

text \<open>
  \<open>_get_sort_key\<close> returns a string, or a pair of strings when sorting by package
  first and the name has a dot.
\<close>

datatype sort_key = KStr string | KTuple string string

definition get_sort_key :: "node \<Rightarrow> bool \<Rightarrow> bool \<Rightarrow> sort_key" where
  "get_sort_key import_node case_insensitive by_package_first =
     (let module_name = (if case_insensitive then lower (get_module_name import_node)
                         else get_module_name import_node)
      in if by_package_first \<and> CHR ''.'' \<in> set module_name
         then KTuple (top_module module_name) module_name
         else KStr module_name)"

text \<open>
  \<open><\<close> on two keys, as \<open>list.sort\<close> applies it: strings and tuples compare among
  themselves in lexicographic order, and a string against a tuple raises \<open>TypeError\<close>.
\<close>

definition key_type_error :: pyexc where
  "key_type_error = Exc TypeError ''< not supported between instances of tuple and str''"

fun key_lt :: "sort_key \<Rightarrow> sort_key \<Rightarrow> pyexc + bool" where
  "key_lt (KStr a) (KStr b) = Inr (a < b)"
| "key_lt (KTuple a1 a2) (KTuple b1 b2) = Inr (a1 < b1 \<or> (a1 = b1 \<and> a2 < b2))"
| "key_lt (KStr a) (KTuple b1 b2) = Inl key_type_error"
| "key_lt (KTuple a1 a2) (KStr b) = Inl key_type_error"

text \<open>
  \<open>list.sort(key=...)\<close> is Python's own. It is stable and uses only \<open><\<close> on the
  keys; it is taken here as the insertion sort with these two properties, an exception
  of a comparison ending the sort.
\<close>

fun insert_sorted :: "sort_key \<times> 'a \<Rightarrow> (sort_key \<times> 'a) list \<Rightarrow> pyexc + (sort_key \<times> 'a) list" where
  "insert_sorted x [] = Inr [x]"
| "insert_sorted x (y # ys) =
     (case key_lt (fst y) (fst x) of
        Inl e \<Rightarrow> Inl e
      | Inr True \<Rightarrow> (case insert_sorted x ys of Inl e \<Rightarrow> Inl e | Inr zs \<Rightarrow> Inr (y # zs))
      | Inr False \<Rightarrow> Inr (x # y # ys))"

fun py_sort :: "(sort_key \<times> 'a) list \<Rightarrow> pyexc + (sort_key \<times> 'a) list" where
  "py_sort [] = Inr []"
| "py_sort (x # xs) = (case py_sort xs of Inl e \<Rightarrow> Inl e | Inr ys \<Rightarrow> insert_sorted x ys)"

text \<open>\<open>imports_in_group.sort(key=lambda x: self._get_sort_key(x[0], ...))\<close>.\<close>

definition sort_group ::
  "ImportSorterPlugin \<Rightarrow> (node \<times> string) list \<Rightarrow> pyexc + (node \<times> string) list" where
  "sort_group self imports_in_group =
     (case py_sort (map (\<lambda>x. (get_sort_key (fst x) (sort_case_insensitive self)
                                  (sort_by_package_then_name self), x))
                        imports_in_group) of
        Inl e \<Rightarrow> Inl e
      | Inr keyed \<Rightarrow> Inr (map snd keyed))"

text \<open>The first loop of \<open>_sort_imports\<close>: the groups in the order first met.\<close>

fun group_imports ::
  "ImportSorterPlugin \<Rightarrow> node list \<Rightarrow> (string \<times> (node \<times> string) list) list
     \<Rightarrow> (string \<times> (node \<times> string) list) list" where
  "group_imports self [] grouped_imports = grouped_imports"
| "group_imports self (imp # imports) grouped_imports =
     (let grp = determine_import_group self imp
      in group_imports self imports
           (case dict_get grouped_imports grp of
              None \<Rightarrow> dict_set grouped_imports grp [(imp, grp)]
            | Some l \<Rightarrow> dict_set grouped_imports grp (l @ [(imp, grp)])))"

text \<open>The second loop: each group sorted in place.\<close>

fun sort_groups ::
  "ImportSorterPlugin \<Rightarrow> (string \<times> (node \<times> string) list) list
     \<Rightarrow> pyexc + (string \<times> (node \<times> string) list) list" where
  "sort_groups self [] = Inr []"
| "sort_groups self ((grp, imports_in_group) # rest) =
     (case sort_group self imports_in_group of
        Inl e \<Rightarrow> Inl e
      | Inr in_order \<Rightarrow>
          (case sort_groups self rest of
             Inl e \<Rightarrow> Inl e
           | Inr rest' \<Rightarrow> Inr ((grp, in_order) # rest')))"

definition sort_imports :: "ImportSorterPlugin \<Rightarrow> node list \<Rightarrow> pyexc + (node \<times> string) list" where
  "sort_imports self imports =
     (case sort_groups self (group_imports self imports []) of
        Inl e \<Rightarrow> Inl e
      | Inr grouped_imports \<Rightarrow>
          Inr (concat (map (\<lambda>grp. case dict_get grouped_imports grp of
                                     Some l \<Rightarrow> l | None \<Rightarrow> [])
                           (group_order self))
               @ concat (map snd (filter (\<lambda>(grp, l). grp \<notin> set (group_order self))
                                    grouped_imports))))"

subsection \<open>\<open>_process_module_imports\<close> and \<open>apply_plugin\<close>\<close>

definition is_import :: "node \<Rightarrow> bool" where
  "is_import child = (node_type child \<in> {''import_stmt'', ''import_from_stmt''})"

definition extract_imports :: "node \<Rightarrow> node list" where
  "extract_imports n = filter is_import (children n)"

text \<open>
  The loop that renders the sorted imports, with \<open>current_group\<close> carried along; the
  host renderer may raise.
\<close>

fun render_imports ::
  "ImportSorterPlugin \<Rightarrow> node line_gen \<Rightarrow> (node \<times> string) list \<Rightarrow> string option \<Rightarrow> string list
     \<Rightarrow> pyexc + string list" where
  "render_imports self lg [] current_group import_lines = Inr import_lines"
| "render_imports self lg ((import_node, grp) # rest) current_group import_lines =
     (let lines1 = (if separate_groups_with_blank_line self \<and> current_group \<noteq> None
                       \<and> current_group \<noteq> Some grp
                    then import_lines @ [[]] else import_lines)
      in case lg import_node of
           Inl e \<Rightarrow> Inl e
         | Inr import_formatted \<Rightarrow>
             render_imports self lg rest (Some grp) (lines1 @ import_formatted))"

fun render_others :: "node line_gen \<Rightarrow> node list \<Rightarrow> string list \<Rightarrow> pyexc + string list" where
  "render_others lg [] other_lines = Inr other_lines"
| "render_others lg (child_node # rest) other_lines =
     (case lg child_node of
        Inl e \<Rightarrow> Inl e
      | Inr child_lines \<Rightarrow> render_others lg rest (other_lines @ child_lines))"

text \<open>\<open>context.pop(k, None)\<close>.\<close>

definition dict_pop :: "(string \<times> 'v) list \<Rightarrow> string \<Rightarrow> (string \<times> 'v) list" where
  "dict_pop d k = filter (\<lambda>(k', v). k' \<noteq> k) d"

text \<open>
  \<open>_process_module_imports\<close>. The context is marked before the sort and unmarked at
  the end; an exception in between leaves the mark in place.
\<close>

definition process_module_imports ::
  "ImportSorterPlugin \<Rightarrow> node \<Rightarrow> node line_gen \<Rightarrow> pydict \<Rightarrow> (pyexc + string list option) \<times> pydict" where
  "process_module_imports self n lg context =
     (let imports = extract_imports n in
      if imports = [] then (Inr None, context)
      else
        (let context1 = dict_set context ''import_sorting_in_progress'' (VBool True) in
         case exc_bind (sort_imports self imports) (\<lambda>sorted_imports.
              exc_bind (render_imports self lg sorted_imports None []) (\<lambda>import_lines.
              exc_bind (render_others lg (filter (\<lambda>child. \<not> is_import child) (children n)) [])
                (\<lambda>other_lines.
              Inr (if import_lines \<noteq> [] \<and> other_lines \<noteq> [] \<and> strip (hd other_lines) \<noteq> []
                   then import_lines @ [[]] @ other_lines
                   else import_lines @ other_lines)))) of
           Inl e \<Rightarrow> (Inl e, context1)
         | Inr result_lines \<Rightarrow>
             (Inr (Some result_lines), dict_pop context1 ''import_sorting_in_progress'')))"

text \<open>What \<open>return line_gen(node)\<close> is for the pipeline.\<close>

definition return_line_gen :: "node line_gen \<Rightarrow> node \<Rightarrow> pyexc + string list option" where
  "return_line_gen lg n = (case lg n of Inl e \<Rightarrow> Inl e | Inr ls \<Rightarrow> Inr (Some ls))"

definition sorter_apply_plugin ::
  "ImportSorterPlugin \<Rightarrow> node line_gen \<Rightarrow> node \<Rightarrow> pydict \<Rightarrow> (pyexc + string list option) \<times> pydict" where
  "sorter_apply_plugin self lg n context =
     (if node_type n \<notin> {''import_stmt'', ''import_from_stmt'', ''file_input''}
      then (return_line_gen lg n, context)
      else if node_type n = ''file_input''
      then (case process_module_imports self n lg context of
              (Inl e, context') \<Rightarrow> (Inl e, context')
            | (Inr None, context') \<Rightarrow> (return_line_gen lg n, context')
            | (Inr (Some result), context') \<Rightarrow>
                if result \<noteq> [] then (Inr (Some result), context')
                else (return_line_gen lg n, context'))
      else if (case dict_get context ''import_sorting_in_progress'' of
                 Some v \<Rightarrow> truthy v | None \<Rightarrow> False)
      then (Inr None, context)
      else (return_line_gen lg n, context))"

text \<open>The plugin as the pipeline holds it.\<close>

definition import_sorter_plugin :: "ImportSorterPlugin \<Rightarrow> (node, pydict) plugin" where
  "import_sorter_plugin self =
     \<lparr>PLUGIN_NAME = ''import_sorter'', apply_plugin = sorter_apply_plugin self\<rparr>"

subsection \<open>Examples for the import sorter\<close>

text \<open>
  \<open>import m\<close> and \<open>from . import x\<close> as nodes, a module made of statements, the
  configuration of the grouping example, and a host renderer that prints a node's code.
\<close>

definition import_of :: "string \<Rightarrow> node" where
  "import_of m = Node ''import_stmt'' [Node ''dotted_name'' [] m m] [] (''import '' @ m)"

definition from_dot_import :: "string \<Rightarrow> node" where
  "from_dot_import x =
     Node ''import_from_stmt'' [Node ''dot'' [] ''.'' ''.'', Node ''name'' [] x x] []
       (''from . import '' @ x)"

definition file_input_of :: "node list \<Rightarrow> node" where
  "file_input_of stmts = Node ''file_input'' stmts [] []"

definition myapp_sorter :: ImportSorterPlugin where
  "myapp_sorter = new_ImportSorterPlugin\<lparr>local_prefixes := [''.''], first_party_prefixes := [''myapp'']\<rparr>"

definition code_lines :: "node line_gen" where
  "code_lines = (\<lambda>n. Inr [get_code n])"

text \<open>Whether a sort key is a tuple; a name for stating properties of the sort.\<close>

fun is_tuple_key :: "sort_key \<Rightarrow> bool" where
  "is_tuple_key (KTuple a b) = True"
| "is_tuple_key (KStr a) = False"

text \<open>
  A module with \<open>import requests\<close> and \<open>import requests.adapters\<close>, both of the
  group \<open>third_party\<close>, the first with one component and the second with two.
\<close>

definition mixed_module :: node where
  "mixed_module = file_input_of [import_of ''requests'', import_of ''requests.adapters'']"

section \<open>Properties of the dispatch pipeline\<close>

lemma apply_plugins_log_prefix:
  "\<exists>extra. snd (snd (apply_plugins ps lg n (c, err))) = err @ extra"
proof (induction ps arbitrary: c err)
  case Nil
  then show ?case by simp
next
  case (Cons p ps)
  obtain o' c' where pc: "apply_plugin p lg n c = (o', c')" by (cases "apply_plugin p lg n c")
  show ?case
  proof (cases o')
    case (Inl e)
    show ?thesis
    proof (cases "isinstance e Exception")
      case True
      from Cons.IH[of c' "err @ [apply_error_line (PLUGIN_NAME p) e]"]
      obtain extra where "snd (snd (apply_plugins ps lg n (c', err @ [apply_error_line (PLUGIN_NAME p) e])))
         = (err @ [apply_error_line (PLUGIN_NAME p) e]) @ extra" by blast
      with pc Inl True show ?thesis by simp
    next
      case False
      with pc Inl show ?thesis by simp
    qed
  next
    case (Inr r)
    show ?thesis
    proof (cases r)
      case None
      with pc Inr Cons.IH[of c' err] show ?thesis by simp
    next
      case (Some a)
      with pc Inr show ?thesis by simp
    qed
  qed
qed

lemma apply_plugins_as_deferred:
  assumes "\<forall>p\<in>set ps. \<forall>c e c'. apply_plugin p lg n c = (Inl e, c') \<longrightarrow> isinstance e Exception"
  shows "fst (apply_plugins ps lg n (c, err)) = fst (apply_plugins (map as_deferred ps) lg n (c, err'))
       \<and> fst (snd (apply_plugins ps lg n (c, err))) = fst (snd (apply_plugins (map as_deferred ps) lg n (c, err')))"
  using assms
proof (induction ps arbitrary: c err err')
  case Nil
  then show ?case by simp
next
  case (Cons p ps)
  obtain o' c' where pc: "apply_plugin p lg n c = (o', c')" by (cases "apply_plugin p lg n c")
  have rest: "\<forall>p\<in>set ps. \<forall>c e c'. apply_plugin p lg n c = (Inl e, c') \<longrightarrow> isinstance e Exception"
    using Cons.prems by simp
  show ?case
  proof (cases o')
    case (Inl e)
    with pc Cons.prems have ex: "isinstance e Exception" by auto
    from Cons.IH[OF rest, of c' "err @ [apply_error_line (PLUGIN_NAME p) e]" err']
    show ?thesis using pc Inl ex by (simp add: as_deferred_def)
  next
    case (Inr r)
    show ?thesis
    proof (cases r)
      case None
      with pc Inr Cons.IH[OF rest, of c' err err'] show ?thesis by (simp add: as_deferred_def)
    next
      case (Some a)
      with pc Inr show ?thesis by (simp add: as_deferred_def)
    qed
  qed
qed

lemma as_deferred_never_raises:
  "fst (apply_plugins (map as_deferred ps) lg n (c, err)) \<noteq> Inl e"
proof (induction ps arbitrary: c err)
  case Nil
  then show ?case by simp
next
  case (Cons p ps)
  obtain o' c' where pc: "apply_plugin p lg n c = (o', c')" by (cases "apply_plugin p lg n c")
  show ?case
  proof (cases o')
    case (Inl e)
    with pc Cons.IH[of c' err] show ?thesis by (simp add: as_deferred_def)
  next
    case (Inr r)
    with pc Cons.IH[of c' err] show ?thesis by (cases r) (simp_all add: as_deferred_def)
  qed
qed

text \<open>
  Claim C1, as amended. A plugin whose \<open>apply_plugin\<close> raises an exception that is an
  instance of \<open>Exception\<close> is caught: the line naming the plugin is written to stderr
  and the pipeline goes on with the remaining plugins and the host renderer, from the
  context the plugin left. When every exception the plugins raise is of that kind, the
  pipeline returns what it returns with each plugin replaced by its deferring counterpart
  and leaves the same context; the outcome is a plugin's result or whatever the host
  renderer gives for the node.
\<close>

theorem pipeline_isolates_exceptions:
  "(isinstance e Exception \<and> apply_plugin p lg n c = (Inl e, c') \<longrightarrow>
      visit (p # ps) lg n (c, err) = visit ps lg n (c', err @ [apply_error_line (PLUGIN_NAME p) e]))
   \<and> ((\<forall>q\<in>set qs. \<forall>c e c'. apply_plugin q lg n c = (Inl e, c') \<longrightarrow> isinstance e Exception) \<longrightarrow>
        fst (visit qs lg n (c, err)) = fst (visit (map as_deferred qs) lg n (c, err))
      \<and> fst (snd (visit qs lg n (c, err))) = fst (snd (visit (map as_deferred qs) lg n (c, err)))
      \<and> (fst (visit qs lg n (c, err)) = lg n \<or> (\<exists>r. fst (visit qs lg n (c, err)) = Inr r)))"
proof (intro conjI impI)
  assume "isinstance e Exception \<and> apply_plugin p lg n c = (Inl e, c')"
  then show "visit (p # ps) lg n (c, err) = visit ps lg n (c', err @ [apply_error_line (PLUGIN_NAME p) e])"
    by (simp add: visit_def)
next
  assume a: "\<forall>q\<in>set qs. \<forall>c e c'. apply_plugin q lg n c = (Inl e, c') \<longrightarrow> isinstance e Exception"
  have same: "fst (apply_plugins qs lg n (c, err)) = fst (apply_plugins (map as_deferred qs) lg n (c, err))
       \<and> fst (snd (apply_plugins qs lg n (c, err))) = fst (snd (apply_plugins (map as_deferred qs) lg n (c, err)))"
    by (rule apply_plugins_as_deferred[OF a])
  obtain o1 c1 l1 where r1: "apply_plugins qs lg n (c, err) = (o1, c1, l1)"
    by (cases "apply_plugins qs lg n (c, err)")
  obtain o2 c2 l2 where r2: "apply_plugins (map as_deferred qs) lg n (c, err) = (o2, c2, l2)"
    by (cases "apply_plugins (map as_deferred qs) lg n (c, err)")
  from same r1 r2 have eq: "o1 = o2" "c1 = c2" by simp_all
  from as_deferred_never_raises[of qs lg n c err] r2 have nr: "\<And>x. o2 \<noteq> Inl x" by simp
  from r1 r2 eq show "fst (visit qs lg n (c, err)) = fst (visit (map as_deferred qs) lg n (c, err))"
    by (simp add: visit_def split: sum.splits option.splits)
  from r1 r2 eq show "fst (snd (visit qs lg n (c, err))) = fst (snd (visit (map as_deferred qs) lg n (c, err)))"
    by (simp add: visit_def split: sum.splits option.splits)
  from r1 eq nr show "fst (visit qs lg n (c, err)) = lg n \<or> (\<exists>r. fst (visit qs lg n (c, err)) = Inr r)"
    by (cases o2) (auto simp: visit_def split: option.splits)
qed

theorem pipeline_isolates_exceptions_witness:
  "isinstance (Exc RuntimeError ''boom'') Exception
   \<and> visit [raising_plugin ''bad'' (Exc RuntimeError ''boom''), result_plugin ''good'' (Some [''x''])]
        (host_lines [''h'']) () ((), [])
      = (Inr [''x''], (), [''Error applying plugin bad: boom''])
   \<and> fst (visit [raising_plugin ''bad'' (Exc RuntimeError ''boom'')] (host_lines [''h'']) () ((), []))
      = host_lines [''h''] ()"
  using pipeline_isolates_exceptions
    [of "Exc RuntimeError ''boom''" "raising_plugin ''bad'' (Exc RuntimeError ''boom'')"
        "host_lines [''h'']" "()" "()" "()" "[result_plugin ''good'' (Some [''x''])]" "[]"
        "[raising_plugin ''bad'' (Exc RuntimeError ''boom'')]"]
  by (simp add: visit_def raising_plugin_def result_plugin_def host_lines_def isinstance_def
        apply_error_line_def as_deferred_def)

text \<open>
  Claim C1 as stated fails for an exception outside \<open>Exception\<close>: a plugin that raises
  \<open>SystemExit\<close> is not caught and not logged, and the plugin after it is never offered
  the node.
\<close>

theorem pipeline_base_exception_counterexample:
  "visit [raising_plugin ''bad'' (Exc SystemExit ''1''), result_plugin ''good'' (Some [''x''])]
        (host_lines [''h'']) () ((), [])
     = (Inl (Exc SystemExit ''1''), (), [])"
  by (simp add: visit_def raising_plugin_def result_plugin_def isinstance_def)

lemma visit_deferred_prefix:
  "deferred_state pre lg n c = Some c1 \<Longrightarrow> visit (pre @ ps) lg n (c, err) = visit ps lg n (c1, err)"
proof (induction pre arbitrary: c)
  case Nil
  then show ?case by simp
next
  case (Cons p pre)
  obtain o' c' where pc: "apply_plugin p lg n c = (o', c')" by (cases "apply_plugin p lg n c")
  with Cons.prems have o': "o' = Inr None" and d: "deferred_state pre lg n c' = Some c1"
    by (auto split: sum.splits option.splits)
  from Cons.IH[OF d] pc o' show ?case by (simp add: visit_def)
qed

text \<open>
  Claim C2, as amended. A plugin whose result is not \<open>None\<close> (an empty list
  included) ends the dispatch: its result is returned as it is, whatever plugins follow
  it, and the context is the one it left. A plugin returning \<open>None\<close> passes the node
  on to the plugins after it, and with no plugin left the host renderer's output is
  returned. So with plugins \<open>pre @ p # post\<close>, where all of \<open>pre\<close> return
  \<open>None\<close> and \<open>p\<close> returns \<open>r\<close>, the pipeline returns \<open>r\<close>.
\<close>

theorem first_result_short_circuits:
  "(apply_plugin p lg n c = (Inr (Some r), c') \<longrightarrow> visit (p # ps) lg n (c, err) = (Inr r, c', err))
   \<and> (apply_plugin p lg n c = (Inr None, c') \<longrightarrow> visit (p # ps) lg n (c, err) = visit ps lg n (c', err))
   \<and> visit [] lg n (c, err) = (lg n, c, err)
   \<and> (deferred_state pre lg n c = Some c1 \<and> apply_plugin q lg n c1 = (Inr (Some r), c2) \<longrightarrow>
        visit (pre @ q # post) lg n (c, err) = (Inr r, c2, err))
   \<and> (deferred_state pre lg n c = Some c1 \<longrightarrow> visit pre lg n (c, err) = (lg n, c1, err))"
proof (intro conjI impI)
  show "visit [] lg n (c, err) = (lg n, c, err)" by (simp add: visit_def)
next
  assume "apply_plugin p lg n c = (Inr (Some r), c')"
  then show "visit (p # ps) lg n (c, err) = (Inr r, c', err)" by (simp add: visit_def)
next
  assume "apply_plugin p lg n c = (Inr None, c')"
  then show "visit (p # ps) lg n (c, err) = visit ps lg n (c', err)" by (simp add: visit_def)
next
  assume a: "deferred_state pre lg n c = Some c1 \<and> apply_plugin q lg n c1 = (Inr (Some r), c2)"
  then have "visit (pre @ q # post) lg n (c, err) = visit (q # post) lg n (c1, err)"
    by (simp add: visit_deferred_prefix)
  with a show "visit (pre @ q # post) lg n (c, err) = (Inr r, c2, err)" by (simp add: visit_def)
next
  assume "deferred_state pre lg n c = Some c1"
  from visit_deferred_prefix[OF this, of "[]" err]
  show "visit pre lg n (c, err) = (lg n, c1, err)" by (simp add: visit_def)
qed

theorem first_result_short_circuits_witness:
  "visit [result_plugin ''a'' None, result_plugin ''b'' (Some [''x'']), result_plugin ''c'' (Some [''y''])]
      (host_lines [''h'']) () ((), []) = (Inr [''x''], (), [])
   \<and> visit [result_plugin ''a'' None] (host_lines [''h'']) () ((), []) = (Inr [''h''], (), [])
   \<and> visit [result_plugin ''b'' (Some [''x'']), result_plugin ''c'' (Some [''y''])]
      (host_lines [''h'']) () ((), []) = (Inr [''x''], (), [])"
  using first_result_short_circuits
    [of "result_plugin ''b'' (Some [''x''])" "host_lines [''h'']" "()" "()" "[''x'']" "()"
        "[result_plugin ''c'' (Some [''y''])]" "[]" "[result_plugin ''a'' None]" "()"
        "result_plugin ''b'' (Some [''x''])" "()" "[result_plugin ''c'' (Some [''y''])]"]
  by (simp add: visit_def result_plugin_def host_lines_def)

text \<open>
  Claim C2 as stated fails for an empty result: the test is \<open>result is not None\<close>, so
  a plugin returning the empty list ends the dispatch, and the non-empty result of the
  plugin after it is not used.
\<close>

theorem empty_result_counterexample:
  "visit [result_plugin ''first'' (Some []), result_plugin ''second'' (Some [''x''])]
      (host_lines [''h'']) () ((), []) = (Inr [], (), [])"
  by (simp add: visit_def result_plugin_def)

section \<open>Properties of the configuration manager\<close>

lemma dict_get_dict_set:
  "dict_get (dict_set d k v) k' = (if k' = k then Some v else dict_get d k')"
  by (induction d) (auto simp: dict_get_def)

lemma disable_name_get:
  "dict_get (plugin_configs (disable_name k cfg)) nm =
     (if nm = k then Some ((get_or_create (plugin_configs cfg) k)\<lparr>state := DISABLED\<rparr>)
      else dict_get (plugin_configs cfg) nm)"
  by (simp add: disable_name_def dict_get_dict_set)

lemma disable_names_other:
  "nm \<notin> set ns \<Longrightarrow> dict_get (plugin_configs (disable_names ns cfg)) nm = dict_get (plugin_configs cfg) nm"
  by (induction ns arbitrary: cfg) (auto simp: disable_name_get)

lemma disable_name_keeps_disabled:
  "\<exists>pc. dict_get (plugin_configs cfg) nm = Some pc \<and> state pc = DISABLED \<Longrightarrow>
   \<exists>pc. dict_get (plugin_configs (disable_name k cfg)) nm = Some pc \<and> state pc = DISABLED"
  by (auto simp: disable_name_get)

lemma disable_names_keeps_disabled:
  "\<exists>pc. dict_get (plugin_configs cfg) nm = Some pc \<and> state pc = DISABLED \<Longrightarrow>
   \<exists>pc. dict_get (plugin_configs (disable_names ns cfg)) nm = Some pc \<and> state pc = DISABLED"
proof (induction ns arbitrary: cfg)
  case Nil
  then show ?case by simp
next
  case (Cons k ns)
  from Cons.IH[OF disable_name_keeps_disabled[OF Cons.prems]] show ?case by simp
qed

lemma disable_names_member:
  "nm \<in> set ns \<Longrightarrow>
   \<exists>pc. dict_get (plugin_configs (disable_names ns cfg)) nm = Some pc \<and> state pc = DISABLED"
proof (induction ns arbitrary: cfg)
  case Nil
  then show ?case by simp
next
  case (Cons k ns)
  show ?case
  proof (cases "nm = k")
    case True
    have "\<exists>pc. dict_get (plugin_configs (disable_name k cfg)) nm = Some pc \<and> state pc = DISABLED"
      using True by (simp add: disable_name_get)
    from disable_names_keeps_disabled[OF this] show ?thesis by simp
  next
    case False
    with Cons.prems have "nm \<in> set ns" by simp
    from Cons.IH[OF this] show ?thesis by simp
  qed
qed

lemma disable_names_globals:
  "enable_by_default (disable_names ns cfg) = enable_by_default cfg
   \<and> disable_all (disable_names ns cfg) = disable_all cfg
   \<and> discovery_paths (disable_names ns cfg) = discovery_paths cfg"
  by (induction ns arbitrary: cfg) (simp_all add: disable_name_def)

lemma split1_colon_cases:
  "split1 (CHR '':'') s = [s] \<and> CHR '':'' \<notin> set s
   \<or> (\<exists>r. split1 (CHR '':'') s = [takeWhile (\<lambda>c. c \<noteq> CHR '':'') s, r])"
  by (simp add: split1_def)

lemma takeWhile_absent: "x \<notin> set s \<Longrightarrow> takeWhile (\<lambda>c. c \<noteq> x) s = s"
  by (induction s) auto

lemma enable_spec_get:
  assumes "enable_spec sp cfg = Inr cfg'"
  shows "(\<exists>pc. dict_get (plugin_configs cfg') (plugin_name_of sp) = Some pc \<and> state pc = ENABLED)
       \<and> (\<forall>nm. nm \<noteq> plugin_name_of sp \<longrightarrow>
             dict_get (plugin_configs cfg') nm = dict_get (plugin_configs cfg) nm)"
proof -
  from split1_colon_cases[of sp]
  obtain rest where sp: "split1 (CHR '':'') sp = takeWhile (\<lambda>c. c \<noteq> CHR '':'') sp # rest"
    by (auto simp: takeWhile_absent)
  from assms show ?thesis
    unfolding enable_spec_def sp plugin_name_of_def
    by (auto simp: Let_def dict_get_dict_set split: sum.splits list.splits if_splits)
qed

lemma enable_spec_globals:
  assumes "enable_spec sp cfg = Inr cfg'"
  shows "enable_by_default cfg' = enable_by_default cfg \<and> disable_all cfg' = disable_all cfg
       \<and> discovery_paths cfg' = discovery_paths cfg"
  using assms unfolding enable_spec_def
  by (auto simp: Let_def split: sum.splits list.splits if_splits)

lemma enable_specs_other:
  "enable_specs sps cfg = Inr cfg' \<Longrightarrow> nm \<notin> plugin_name_of ` set sps \<Longrightarrow>
   dict_get (plugin_configs cfg') nm = dict_get (plugin_configs cfg) nm"
proof (induction sps arbitrary: cfg)
  case Nil
  then show ?case by simp
next
  case (Cons sp sps)
  from Cons.prems(1) obtain c1 where c1: "enable_spec sp cfg = Inr c1" and r: "enable_specs sps c1 = Inr cfg'"
    by (auto split: sum.splits)
  from Cons.prems(2) have n1: "nm \<noteq> plugin_name_of sp" and n2: "nm \<notin> plugin_name_of ` set sps" by auto
  from Cons.IH[OF r n2] enable_spec_get[OF c1] n1 show ?case by simp
qed

lemma enable_specs_keeps_enabled:
  "enable_specs sps cfg = Inr cfg' \<Longrightarrow>
   \<exists>pc. dict_get (plugin_configs cfg) nm = Some pc \<and> state pc = ENABLED \<Longrightarrow>
   \<exists>pc. dict_get (plugin_configs cfg') nm = Some pc \<and> state pc = ENABLED"
proof (induction sps arbitrary: cfg)
  case Nil
  then show ?case by simp
next
  case (Cons sp sps)
  from Cons.prems(1) obtain c1 where c1: "enable_spec sp cfg = Inr c1" and r: "enable_specs sps c1 = Inr cfg'"
    by (auto split: sum.splits)
  have "\<exists>pc. dict_get (plugin_configs c1) nm = Some pc \<and> state pc = ENABLED"
    using enable_spec_get[OF c1] Cons.prems(2) by (cases "nm = plugin_name_of sp") auto
  from Cons.IH[OF r this] show ?case .
qed

lemma enable_specs_member:
  "enable_specs sps cfg = Inr cfg' \<Longrightarrow> nm \<in> plugin_name_of ` set sps \<Longrightarrow>
   \<exists>pc. dict_get (plugin_configs cfg') nm = Some pc \<and> state pc = ENABLED"
proof (induction sps arbitrary: cfg)
  case Nil
  then show ?case by simp
next
  case (Cons sp sps)
  from Cons.prems(1) obtain c1 where c1: "enable_spec sp cfg = Inr c1" and r: "enable_specs sps c1 = Inr cfg'"
    by (auto split: sum.splits)
  show ?case
  proof (cases "nm = plugin_name_of sp")
    case True
    with enable_spec_get[OF c1]
    have "\<exists>pc. dict_get (plugin_configs c1) nm = Some pc \<and> state pc = ENABLED" by simp
    from enable_specs_keeps_enabled[OF r this] show ?thesis .
  next
    case False
    with Cons.prems(2) have "nm \<in> plugin_name_of ` set sps" by auto
    from Cons.IH[OF r this] show ?thesis .
  qed
qed

lemma enable_specs_globals:
  "enable_specs sps cfg = Inr cfg' \<Longrightarrow>
   enable_by_default cfg' = enable_by_default cfg \<and> disable_all cfg' = disable_all cfg
       \<and> discovery_paths cfg' = discovery_paths cfg"
proof (induction sps arbitrary: cfg)
  case Nil
  then show ?case by simp
next
  case (Cons sp sps)
  from Cons.prems(1) obtain c1 where c1: "enable_spec sp cfg = Inr c1" and r: "enable_specs sps c1 = Inr cfg'"
    by (auto split: sum.splits)
  from Cons.IH[OF r] enable_spec_globals[OF c1] show ?case by simp
qed

text \<open>
  What \<open>update_from_cli\<close> does with the two repeated options, each name taken as the
  code takes it: stripped for \<open>--plugin\<close>, as given for \<open>--disable-plugin\<close>. When
  the call returns, a name in the \<open>--disable-plugin\<close> list is recorded as disabled and
  resolves to not enabled, whether or not a \<open>--plugin\<close> specification has it as its
  name; a name that only a \<open>--plugin\<close> specification has is enabled; a name that
  neither has keeps the entry it had after the global settings and the manifest were
  handled; and a plugin with no entry or with state \<open>DEFAULT\<close> resolves to
  \<open>enable_by_default\<close>.
\<close>

theorem disable_wins:
  assumes u: "update_from_cli fs cwd args cm = Inr cm'"
  shows "\<exists>cm2. handle_global_settings fs cwd args cm = Inr cm2
        \<and> (nm \<in> set (listed (disable_plugin args)) \<longrightarrow>
              entry_state cm' nm = Some DISABLED \<and> \<not> plugin_enabled (plugins_config cm') nm)
        \<and> (nm \<notin> set (listed (disable_plugin args)) \<and> nm \<in> plugin_name_of ` set (listed (plugin args)) \<longrightarrow>
              entry_state cm' nm = Some ENABLED \<and> plugin_enabled (plugins_config cm') nm)
        \<and> (nm \<notin> set (listed (disable_plugin args)) \<and> nm \<notin> plugin_name_of ` set (listed (plugin args)) \<longrightarrow>
              dict_get (plugin_configs (plugins_config cm')) nm = dict_get (plugin_configs (plugins_config cm2)) nm)
        \<and> (entry_state cm' nm = None \<or> entry_state cm' nm = Some DEFAULT \<longrightarrow>
              plugin_enabled (plugins_config cm') nm = truthy (enable_by_default (plugins_config cm2)))"
proof -
  from u obtain cm2 cfg3 where
    g: "handle_global_settings fs cwd args cm = Inr cm2" and
    e: "enable_specs (listed (plugin args)) (plugins_config cm2) = Inr cfg3" and
    cm': "cm' = cm2\<lparr>plugins_config := disable_names (listed (disable_plugin args)) cfg3\<rparr>"
    by (auto simp: update_from_cli_def split: sum.splits)
  let ?ds = "listed (disable_plugin args)"
  let ?cfg = "disable_names ?ds cfg3"
  have pc: "plugins_config cm' = ?cfg" using cm' by simp
  have d: "nm \<in> set ?ds \<Longrightarrow> entry_state cm' nm = Some DISABLED \<and> \<not> plugin_enabled (plugins_config cm') nm"
  proof -
    assume "nm \<in> set ?ds"
    from disable_names_member[OF this, of cfg3]
    show ?thesis by (auto simp: entry_state_def pc plugin_enabled_def get_or_create_def)
  qed
  have en: "nm \<notin> set ?ds \<Longrightarrow> nm \<in> plugin_name_of ` set (listed (plugin args)) \<Longrightarrow>
        entry_state cm' nm = Some ENABLED \<and> plugin_enabled (plugins_config cm') nm"
  proof -
    assume a: "nm \<notin> set ?ds" and b: "nm \<in> plugin_name_of ` set (listed (plugin args))"
    from enable_specs_member[OF e b] disable_names_other[OF a, of cfg3]
    show ?thesis by (auto simp: entry_state_def pc plugin_enabled_def get_or_create_def)
  qed
  have ot: "nm \<notin> set ?ds \<Longrightarrow> nm \<notin> plugin_name_of ` set (listed (plugin args)) \<Longrightarrow>
        dict_get (plugin_configs (plugins_config cm')) nm = dict_get (plugin_configs (plugins_config cm2)) nm"
  proof -
    assume a: "nm \<notin> set ?ds" and b: "nm \<notin> plugin_name_of ` set (listed (plugin args))"
    from enable_specs_other[OF e b] disable_names_other[OF a, of cfg3]
    show ?thesis by (simp add: pc)
  qed
  have ebd: "enable_by_default ?cfg = enable_by_default (plugins_config cm2)"
    using disable_names_globals[of ?ds cfg3] enable_specs_globals[OF e] by simp
  have df: "entry_state cm' nm = None \<or> entry_state cm' nm = Some DEFAULT \<Longrightarrow>
        plugin_enabled (plugins_config cm') nm = truthy (enable_by_default (plugins_config cm2))"
    using ebd by (auto simp: entry_state_def pc plugin_enabled_def get_or_create_def new_PluginConfig_def)
  from g d en ot df show ?thesis by blast
qed

theorem disable_wins_witness:
  "update_from_cli no_files [] example_args new_ConfigurationManager = Inr example_updated
   \<and> ''foo'' \<in> set (listed (disable_plugin example_args))
   \<and> ''foo'' \<in> plugin_name_of ` set (listed (plugin example_args))
   \<and> entry_state example_updated ''foo'' = Some DISABLED
   \<and> \<not> plugin_enabled (plugins_config example_updated) ''foo''
   \<and> entry_state example_updated ''bar'' = Some ENABLED
   \<and> plugin_enabled (plugins_config example_updated) ''baz''"
proof -
  have h: "update_from_cli no_files [] example_args new_ConfigurationManager = Inr example_updated"
    by (simp add: update_from_cli_def handle_global_settings_def example_args_def listed_def
      new_ConfigurationManager_def new_PluginsConfig_def enable_spec_def split1_def strip_def
      isspace_char_def get_or_create_def dict_get_def new_PluginConfig_def coerce_value_def
      lower_def lower_char_def upper_chars_def lower_chars_def isdigit_def isdigit_char_def
      py_int_def isdecimal_char_def decimal_value_def digit_val_def disable_name_def Let_def
      example_updated_def no_files_def)
  have m: "''foo'' \<in> set (listed (disable_plugin example_args))
      \<and> ''foo'' \<in> plugin_name_of ` set (listed (plugin example_args))"
    by (simp add: example_args_def listed_def plugin_name_of_def strip_def isspace_char_def)
  from disable_wins[OF h, of "''foo''"] disable_wins[OF h, of "''bar''"]
       disable_wins[OF h, of "''baz''"] h m
  show ?thesis
    by (simp add: example_args_def listed_def plugin_name_of_def strip_def isspace_char_def
        entry_state_def example_updated_def dict_get_def plugin_enabled_def get_or_create_def
        new_PluginConfig_def handle_global_settings_def new_ConfigurationManager_def
        new_PluginsConfig_def)
qed

lemma lower_char_id: "c \<notin> set upper_chars \<Longrightarrow> lower_char c = c"
proof -
  assume a: "c \<notin> set upper_chars"
  have "length upper_chars = length lower_chars" by (simp add: upper_chars_def lower_chars_def)
  with a have "map_of (zip upper_chars lower_chars) c = None" by simp
  then show ?thesis by (simp add: lower_char_def)
qed

lemma decimal_not_upper: "isdecimal_char c \<Longrightarrow> c \<notin> set upper_chars"
  unfolding isdecimal_char_def upper_chars_def by auto

lemma decimal_lower: "isdecimal_char c \<Longrightarrow> lower_char c = c"
  by (simp add: lower_char_id decimal_not_upper)

lemma dot_lower: "lower_char (CHR ''.'') = CHR ''.''"
  by (rule lower_char_id) (simp add: upper_chars_def)

lemma decimal_not_bool_text:
  assumes "v \<noteq> []" "\<forall>c\<in>set v. isdecimal_char c"
  shows "lower v \<noteq> ''true'' \<and> lower v \<noteq> ''false''"
proof -
  from assms obtain c cs where v: "v = c # cs" by (cases v) auto
  with assms have "isdecimal_char c" by simp
  then have "lower_char c = c" "c \<noteq> CHR ''t''" "c \<noteq> CHR ''f''"
    by (auto simp: decimal_lower isdecimal_char_def)
  then show ?thesis by (auto simp: v lower_def)
qed

lemma dotted_not_bool_text:
  assumes "CHR ''.'' \<in> set v"
  shows "lower v \<noteq> ''true'' \<and> lower v \<noteq> ''false''"
proof -
  from assms have "lower_char (CHR ''.'') \<in> set (lower v)" unfolding lower_def by (simp add: image_iff) blast
  then have "CHR ''.'' \<in> set (lower v)" by (simp add: dot_lower)
  then show ?thesis by auto
qed

lemma decimal_isdigit: "isdecimal_char c \<Longrightarrow> isdigit_char c"
  by (simp add: isdecimal_char_def isdigit_char_def)

lemma count_list_remove1: "x \<in> set v \<Longrightarrow> count_list (remove1 x v) x = count_list v x - 1"
  by (induction v) auto

lemma count_list_0: "count_list v x = 0 \<Longrightarrow> x \<notin> set v"
  by (induction v) (auto split: if_splits)

lemma coerce_int:
  assumes "v \<noteq> []" "\<forall>c\<in>set v. isdecimal_char c"
  shows "coerce_value v = Inr (VInt (decimal_value v))"
  using assms decimal_not_bool_text[OF assms]
  by (simp add: coerce_value_def isdigit_def decimal_isdigit py_int_def)

lemma coerce_float:
  assumes d: "\<exists>c\<in>set v. isdecimal_char c"
    and a: "\<forall>c\<in>set v. isdecimal_char c \<or> c = CHR ''.''"
    and one: "count_list v (CHR ''.'') = 1"
  shows "coerce_value v = Inr (VFloat v)"
proof -
  have dot: "CHR ''.'' \<in> set v"
  proof (rule ccontr)
    assume "CHR ''.'' \<notin> set v"
    then have "count_list v (CHR ''.'') = 0" by (simp add: count_list_0_iff)
    with one show False by simp
  qed
  have "\<not> isdigit_char (CHR ''.'')" by (simp add: isdigit_char_def)
  with dot have nd: "\<not> isdigit v" unfolding isdigit_def by blast
  have c0: "count_list (remove1 (CHR ''.'') v) (CHR ''.'') = 0"
    using count_list_remove1[OF dot] one by simp
  have nodot: "CHR ''.'' \<notin> set (remove1 (CHR ''.'') v)" by (rule count_list_0[OF c0])
  from d obtain c where c: "c \<in> set v" "isdecimal_char c" by blast
  have "\<not> isdecimal_char (CHR ''.'')" by (simp add: isdecimal_char_def)
  with c have "c \<noteq> CHR ''.''" by blast
  with c have cin: "c \<in> set (remove1 (CHR ''.'') v)" by simp
  have alld: "\<forall>c\<in>set (remove1 (CHR ''.'') v). isdigit_char c"
  proof
    fix x assume x: "x \<in> set (remove1 (CHR ''.'') v)"
    then have xv: "x \<in> set v" by (metis notin_set_remove1)
    from x nodot have "x \<noteq> CHR ''.''" by blast
    with a xv have "isdecimal_char x" by blast
    then show "isdigit_char x" by (rule decimal_isdigit)
  qed
  from cin have "remove1 (CHR ''.'') v \<noteq> []" by auto
  with alld have isd: "isdigit (remove1 (CHR ''.'') v)" by (simp add: isdigit_def)
  have pf: "py_float v = Inr (VFloat v)" unfolding py_float_def using d a one by simp
  show ?thesis using dotted_not_bool_text[OF dot] nd isd one pf
    by (simp add: coerce_value_def)
qed

lemma coerce_str:
  assumes "lower v \<noteq> ''true''" "lower v \<noteq> ''false''" "\<not> isdigit v" "\<not> isdigit (remove1 (CHR ''.'') v)"
  shows "coerce_value v = Inr (VStr v)"
  using assms by (simp add: coerce_value_def)

lemma split1_eq:
  "CHR ''='' \<in> set pair \<Longrightarrow> split1 (CHR ''='') pair =
     [takeWhile (\<lambda>c. c \<noteq> CHR ''='') pair, tl (dropWhile (\<lambda>c. c \<noteq> CHR ''='') pair)]"
  by (simp add: split1_def)

lemma parse_options_lookup:
  "parse_options pairs opts = Inr opts' \<Longrightarrow>
   (case map_of (rev (map (\<lambda>pair. (pair_key pair, pair_value pair))
                        (filter (\<lambda>pair. CHR ''='' \<in> set pair) pairs))) k of
      None \<Rightarrow> dict_get opts' k = dict_get opts k
    | Some raw \<Rightarrow> (\<exists>x. coerce_value raw = Inr x \<and> dict_get opts' k = Some x))"
proof (induction pairs arbitrary: opts)
  case Nil
  then show ?case by simp
next
  case (Cons pair pairs)
  let ?kv = "\<lambda>ps. map (\<lambda>pair. (pair_key pair, pair_value pair)) (filter (\<lambda>pair. CHR ''='' \<in> set pair) ps)"
  show ?case
  proof (cases "CHR ''='' \<in> set pair")
    case False
    with Cons.prems have "parse_options pairs opts = Inr opts'" by simp
    from Cons.IH[OF this] False show ?thesis by simp
  next
    case True
    from Cons.prems True obtain x where
      x: "coerce_value (pair_value pair) = Inr x" and
      r: "parse_options pairs (dict_set opts (pair_key pair) x) = Inr opts'"
      by (auto simp: split1_eq pair_key_def pair_value_def split: sum.splits)
    have m: "map_of (rev (?kv (pair # pairs))) k =
        (case map_of (rev (?kv pairs)) k of Some raw \<Rightarrow> Some raw
         | None \<Rightarrow> if k = pair_key pair then Some (pair_value pair) else None)"
      using True by (simp add: map_add_def split: option.splits)
    from Cons.IH[OF r] show ?thesis
      unfolding m using x by (auto simp: dict_get_dict_set split: option.splits)
  qed
qed

text \<open>
  Claim C3 fails when the name is written with white space around it. Given \<open>" foo"\<close>
  to \<open>--plugin\<close> and the same \<open>" foo"\<close> to \<open>--disable-plugin\<close>, the first
  loop strips the name and enables \<open>foo\<close>, the second loop takes the name as it is
  and disables an entry \<open>" foo"\<close> of its own: the plugin \<open>foo\<close> stays enabled.
\<close>

theorem padded_name_stays_enabled:
  "update_from_cli no_files [] padded_args new_ConfigurationManager = Inr padded_updated
   \<and> entry_state padded_updated ''foo'' = Some ENABLED
   \<and> plugin_enabled (plugins_config padded_updated) ''foo''
   \<and> entry_state padded_updated '' foo'' = Some DISABLED"
  by (simp add: update_from_cli_def handle_global_settings_def padded_args_def listed_def
      new_ConfigurationManager_def new_PluginsConfig_def enable_spec_def split1_def strip_def
      isspace_char_def get_or_create_def dict_get_def new_PluginConfig_def disable_name_def
      Let_def padded_updated_def no_files_def entry_state_def plugin_enabled_def)

text \<open>
  Claim C5, as amended. A \<open>--plugin\<close> specification that \<open>update_from_cli\<close>
  processes leaves the named plugin enabled. Its option map keeps every key that the
  specification does not give, and holds under each key that it gives the coerced value
  of the last pair with that key. The coercion: a value equal to \<open>true\<close> or
  \<open>false\<close> ignoring case becomes a boolean; a non-empty string of the digits 0 to 9
  becomes that integer; a string with exactly one decimal point, at least one digit and
  nothing else but digits 0 to 9 becomes a float; a string that is none of these, and that
  \<open>isdigit\<close> does not accept with or without one point removed, stays a string.
\<close>

theorem cli_spec_enables_and_merges:
  assumes en: "enable_spec sp cfg = Inr cfg'"
  shows "(\<exists>pc. dict_get (plugin_configs cfg') (plugin_name_of sp) = Some pc \<and> state pc = ENABLED
      \<and> (\<forall>k. map_of (rev (spec_pairs sp)) k = None \<longrightarrow>
             dict_get (options pc) k
               = dict_get (options (get_or_create (plugin_configs cfg) (plugin_name_of sp))) k)
      \<and> (\<forall>k raw. map_of (rev (spec_pairs sp)) k = Some raw \<longrightarrow>
             (\<exists>x. coerce_value raw = Inr x \<and> dict_get (options pc) k = Some x)))
    \<and> (lower v = ''true'' \<longrightarrow> coerce_value v = Inr (VBool True))
    \<and> (lower v = ''false'' \<longrightarrow> coerce_value v = Inr (VBool False))
    \<and> (v \<noteq> [] \<and> (\<forall>c\<in>set v. isdecimal_char c) \<longrightarrow> coerce_value v = Inr (VInt (decimal_value v)))
    \<and> ((\<exists>c\<in>set v. isdecimal_char c) \<and> (\<forall>c\<in>set v. isdecimal_char c \<or> c = CHR ''.'')
          \<and> count_list v (CHR ''.'') = 1 \<longrightarrow> coerce_value v = Inr (VFloat v))
    \<and> (lower v \<noteq> ''true'' \<and> lower v \<noteq> ''false'' \<and> \<not> isdigit v \<and> \<not> isdigit (remove1 (CHR ''.'') v)
          \<longrightarrow> coerce_value v = Inr (VStr v))"
proof -
  let ?nm = "plugin_name_of sp"
  let ?old = "get_or_create (plugin_configs cfg) ?nm"
  let ?t = "takeWhile (\<lambda>c. c \<noteq> CHR '':'') sp"
  let ?p1 = "tl (dropWhile (\<lambda>c. c \<noteq> CHR '':'') sp)"
  have merged: "\<exists>opts. cfg' = cfg\<lparr>plugin_configs := dict_set (plugin_configs cfg) ?nm (?old\<lparr>state := ENABLED, options := opts\<rparr>)\<rparr>
      \<and> (\<forall>k. map_of (rev (spec_pairs sp)) k = None \<longrightarrow> dict_get opts k = dict_get (options ?old) k)
      \<and> (\<forall>k raw. map_of (rev (spec_pairs sp)) k = Some raw \<longrightarrow>
             (\<exists>x. coerce_value raw = Inr x \<and> dict_get opts k = Some x))"
  proof (cases "CHR '':'' \<in> set sp")
    case False
    then have sp1: "split1 (CHR '':'') sp = [sp]" and tw: "?t = sp" and pairs: "spec_pairs sp = []"
      by (simp_all add: split1_def takeWhile_absent spec_pairs_def)
    from en have "cfg' = cfg\<lparr>plugin_configs := dict_set (plugin_configs cfg) ?nm
          (?old\<lparr>state := ENABLED, options := options ?old\<rparr>)\<rparr>"
      unfolding enable_spec_def sp1 by (auto simp: Let_def plugin_name_of_def tw)
    then show ?thesis unfolding pairs by (intro exI[of _ "options ?old"]) simp
  next
    case True
    then have sp1: "split1 (CHR '':'') sp = [?t, ?p1]" by (simp add: split1_def)
    show ?thesis
    proof (cases "?p1 = []")
      case e: True
      have pairs: "spec_pairs sp = []" using True e by (simp add: spec_pairs_def)
      from en have "cfg' = cfg\<lparr>plugin_configs := dict_set (plugin_configs cfg) ?nm
          (?old\<lparr>state := ENABLED, options := options ?old\<rparr>)\<rparr>"
        unfolding enable_spec_def sp1 by (auto simp: Let_def plugin_name_of_def e)
      then show ?thesis unfolding pairs by (intro exI[of _ "options ?old"]) simp
    next
      case ne: False
      from en obtain opts where
        po: "parse_options (split_all (CHR '','') ?p1) (options ?old) = Inr opts" and
        c': "cfg' = cfg\<lparr>plugin_configs := dict_set (plugin_configs cfg) ?nm (?old\<lparr>state := ENABLED, options := opts\<rparr>)\<rparr>"
        unfolding enable_spec_def sp1
        by (auto simp: Let_def plugin_name_of_def ne split: sum.splits)
      have pairs: "spec_pairs sp = map (\<lambda>pair. (pair_key pair, pair_value pair))
             (filter (\<lambda>pair. CHR ''='' \<in> set pair) (split_all (CHR '','') ?p1))"
        using True by (simp add: spec_pairs_def)
      have lk: "\<And>k. (case map_of (rev (spec_pairs sp)) k of
            None \<Rightarrow> dict_get opts k = dict_get (options ?old) k
          | Some raw \<Rightarrow> (\<exists>x. coerce_value raw = Inr x \<and> dict_get opts k = Some x))"
        unfolding pairs by (rule parse_options_lookup[OF po])
      have a: "\<forall>k. map_of (rev (spec_pairs sp)) k = None \<longrightarrow> dict_get opts k = dict_get (options ?old) k"
      proof (intro allI impI)
        fix k assume "map_of (rev (spec_pairs sp)) k = None"
        with lk[of k] show "dict_get opts k = dict_get (options ?old) k" by simp
      qed
      have b: "\<forall>k raw. map_of (rev (spec_pairs sp)) k = Some raw \<longrightarrow>
             (\<exists>x. coerce_value raw = Inr x \<and> dict_get opts k = Some x)"
      proof (intro allI impI)
        fix k raw assume "map_of (rev (spec_pairs sp)) k = Some raw"
        with lk[of k] show "\<exists>x. coerce_value raw = Inr x \<and> dict_get opts k = Some x" by simp
      qed
      from c' a b show ?thesis by blast
    qed
  qed
  then obtain opts where
    c': "cfg' = cfg\<lparr>plugin_configs := dict_set (plugin_configs cfg) ?nm (?old\<lparr>state := ENABLED, options := opts\<rparr>)\<rparr>" and
    a: "\<forall>k. map_of (rev (spec_pairs sp)) k = None \<longrightarrow> dict_get opts k = dict_get (options ?old) k" and
    b: "\<forall>k raw. map_of (rev (spec_pairs sp)) k = Some raw \<longrightarrow>
             (\<exists>x. coerce_value raw = Inr x \<and> dict_get opts k = Some x)"
    by blast
  have g: "dict_get (plugin_configs cfg') ?nm = Some (?old\<lparr>state := ENABLED, options := opts\<rparr>)"
    by (simp add: c' dict_get_dict_set)
  have first: "\<exists>pc. dict_get (plugin_configs cfg') ?nm = Some pc \<and> state pc = ENABLED
      \<and> (\<forall>k. map_of (rev (spec_pairs sp)) k = None \<longrightarrow> dict_get (options pc) k = dict_get (options ?old) k)
      \<and> (\<forall>k raw. map_of (rev (spec_pairs sp)) k = Some raw \<longrightarrow>
             (\<exists>x. coerce_value raw = Inr x \<and> dict_get (options pc) k = Some x))"
    using g a b by simp
  have t: "lower v = ''true'' \<longrightarrow> coerce_value v = Inr (VBool True)"
    by (simp add: coerce_value_def)
  have f: "lower v = ''false'' \<longrightarrow> coerce_value v = Inr (VBool False)"
    by (simp add: coerce_value_def)
  have i: "v \<noteq> [] \<and> (\<forall>c\<in>set v. isdecimal_char c) \<longrightarrow> coerce_value v = Inr (VInt (decimal_value v))"
    using coerce_int by blast
  have fl: "(\<exists>c\<in>set v. isdecimal_char c) \<and> (\<forall>c\<in>set v. isdecimal_char c \<or> c = CHR ''.'')
          \<and> count_list v (CHR ''.'') = 1 \<longrightarrow> coerce_value v = Inr (VFloat v)"
    using coerce_float by blast
  have st: "lower v \<noteq> ''true'' \<and> lower v \<noteq> ''false'' \<and> \<not> isdigit v \<and> \<not> isdigit (remove1 (CHR ''.'') v)
          \<longrightarrow> coerce_value v = Inr (VStr v)"
    using coerce_str by blast
  from first t f i fl st show ?thesis by (intro conjI)
qed

theorem cli_spec_enables_and_merges_witness:
  "enable_spec ''foo: x = 1, y=2.5 ,z=True,w=abc,skipped'' example_manifest_config
      = Inr example_merged_config
   \<and> map_option state (dict_get (plugin_configs example_merged_config) ''foo'') = Some ENABLED
   \<and> map_option options (dict_get (plugin_configs example_merged_config) ''foo'')
       = Some [(''x'', VInt 1), (''keep'', VInt 7), (''y'', VFloat ''2.5''),
               (''z'', VBool True), (''w'', VStr ''abc'')]
   \<and> coerce_value ''12'' = Inr (VInt 12)
   \<and> coerce_value ''2.5'' = Inr (VFloat ''2.5'')
   \<and> coerce_value ''abc'' = Inr (VStr ''abc'')"
proof -
  have h: "enable_spec ''foo: x = 1, y=2.5 ,z=True,w=abc,skipped'' example_manifest_config
      = Inr example_merged_config"
    by (simp add: enable_spec_def split1_def strip_def isspace_char_def get_or_create_def
      dict_get_def example_manifest_config_def example_merged_config_def new_PluginsConfig_def
      coerce_value_def lower_def lower_char_def upper_chars_def lower_chars_def isdigit_def
      isdigit_char_def py_int_def py_float_def isdecimal_char_def decimal_value_def
      digit_val_def Let_def)
  from cli_spec_enables_and_merges[OF h, of "''12''"] cli_spec_enables_and_merges[OF h, of "''2.5''"]
       cli_spec_enables_and_merges[OF h, of "''abc''"] h
  show ?thesis
    by (simp add: example_merged_config_def new_PluginsConfig_def dict_get_def
      isdecimal_char_def decimal_value_def digit_val_def lower_def lower_char_def
      upper_chars_def lower_chars_def isdigit_def isdigit_char_def)
qed

text \<open>
  Claim C5 as stated fails on the comparison with \<open>true\<close>: it is made on the
  lower-cased value, so \<open>True\<close>, which is not the literal string and is neither all
  digits nor a decimal number, becomes a boolean instead of staying a string.
\<close>

theorem coercion_case_counterexample:
  "coerce_value ''True'' = Inr (VBool True) \<and> coerce_value ''True'' \<noteq> Inr (VStr ''True'')"
  by (simp add: coerce_value_def lower_def lower_char_def upper_chars_def lower_chars_def)

text \<open>
  Where a manifest cannot be used and the loader does return: nothing found, or a file
  whose opening or parsing raises \<open>TOMLDecodeError\<close> or \<open>OSError\<close>. The
  configuration is then the one the manager had.
\<close>

lemma load_from_pyproject_no_op:
  "(case path of None \<Rightarrow> find_pyproject fs cwd | Some p \<Rightarrow> Some p) = None
     \<Longrightarrow> load_from_pyproject fs cwd path cm = Inr cm"
  "fs p = NoFile \<Longrightarrow> load_from_pyproject fs cwd (Some p) cm = Inr cm"
  "fs p = Raises e \<Longrightarrow> load_handler_catches e \<Longrightarrow> p \<noteq> [] \<Longrightarrow>
     load_from_pyproject fs cwd (Some p) cm
       = Inr (cm\<lparr>stderr := stderr cm @ [''Error loading pyproject.toml: '' @ exc_msg e]\<rparr>)"
  by (simp_all add: load_from_pyproject_def)

text \<open>
  Claim C6 holds for the cases above but not for every malformed manifest. A file that
  parses as TOML and gives \<open>tool.black\<close> a value that is not a table makes
  \<open>.get\<close> raise \<open>AttributeError\<close>, which the handler does not name: the exception
  leaves \<open>load_from_pyproject\<close>. Here the manifest is found by the search upward from
  the working directory \<open>/proj/src\<close>.
\<close>

theorem malformed_manifest_escapes:
  "load_from_pyproject
      (only_file ''/proj/pyproject.toml'' (Loads [(''tool'', VDict [(''black'', VInt 1)])]))
      [''proj'', ''src''] None new_ConfigurationManager
     = Inl (Exc AttributeError ''object has no attribute get'')"
  by (simp add: load_from_pyproject_def only_file_def path_str_def extract_plugins_def
      exc_bind_def load_handler_catches_def isinstance_def)

section \<open>Properties of the profiles\<close>

lemma dict_update_Cons: "dict_update d ((k, v) # e) = dict_update (dict_set d k v) e"
  by (simp add: dict_update_def)

lemma dict_update_Nil: "dict_update d [] = d"
  by (simp add: dict_update_def)

lemma dict_get_Cons: "dict_get ((a, b) # e) k = (if k = a then Some b else dict_get e k)"
  by (simp add: dict_get_def)

lemma dict_get_dict_update:
  "distinct (map fst e) \<Longrightarrow>
   dict_get (dict_update d e) k = (case dict_get e k of Some v \<Rightarrow> Some v | None \<Rightarrow> dict_get d k)"
proof (induction e arbitrary: d)
  case Nil
  then show ?case by (simp add: dict_update_Nil dict_get_def)
next
  case (Cons kv e)
  obtain k' v' where kv: "kv = (k', v')" by (cases kv)
  from Cons.prems kv have d: "distinct (map fst e)" and n: "k' \<notin> fst ` set e" by auto
  from n have none: "dict_get e k' = None" by (simp add: dict_get_def map_of_eq_None_iff)
  show ?case
    unfolding kv dict_update_Cons Cons.IH[OF d]
    using none by (auto simp: dict_get_dict_set dict_get_Cons split: option.splits)
qed

lemma effective_unresolved:
  "parent p = None \<or> parent p = Some [] \<or> (\<exists>pn. parent p = Some pn \<and> get_profile r pn = None)
   \<Longrightarrow> get_effective_configuration (Some r) p = Some (settings p)"
  by (subst get_effective_configuration.simps) (auto split: option.splits)

lemma effective_resolved:
  "parent p = Some pn \<Longrightarrow> pn \<noteq> [] \<Longrightarrow> get_profile r pn = Some q \<Longrightarrow>
   get_effective_configuration (Some r) p =
     Option.bind (get_effective_configuration (Some r) q) (\<lambda>config. Some (dict_update config (settings p)))"
  by (subst get_effective_configuration.simps) simp

lemma effective_no_registry: "get_effective_configuration None p = Some (settings p)"
  by (subst get_effective_configuration.simps) (auto split: option.splits)

lemma effective_returns:
  fixes m :: "ConfigurationProfile \<Rightarrow> nat"
  assumes m: "\<forall>q pn q'. (q = p \<or> (\<exists>k. get_profile r k = Some q)) \<and> parent q = Some pn \<and> pn \<noteq> []
                 \<and> get_profile r pn = Some q' \<longrightarrow> m q' < m q"
  shows "\<exists>c. get_effective_configuration (Some r) p = Some c"
proof -
  have "p' = p \<or> (\<exists>k. get_profile r k = Some p') \<Longrightarrow>
        \<exists>c. get_effective_configuration (Some r) p' = Some c" for p'
  proof (induction "m p'" arbitrary: p' rule: less_induct)
    case less
    show ?case
    proof (cases "\<exists>pn q. parent p' = Some pn \<and> pn \<noteq> [] \<and> get_profile r pn = Some q")
      case True
      then obtain pn q where pq: "parent p' = Some pn" "pn \<noteq> []" "get_profile r pn = Some q" by blast
      with m less.prems have "m q < m p'" by blast
      moreover have "q = p \<or> (\<exists>k. get_profile r k = Some q)" using pq(3) by blast
      ultimately obtain c where "get_effective_configuration (Some r) q = Some c"
        using less.hyps by blast
      with effective_resolved[OF pq] show ?thesis by simp
    next
      case False
      then have "parent p' = None \<or> parent p' = Some []
          \<or> (\<exists>pn. parent p' = Some pn \<and> get_profile r pn = None)"
        by (cases "parent p'") auto
      from effective_unresolved[OF this] show ?thesis by blast
    qed
  qed
  then show ?thesis by blast
qed


lemma effective_A: "get_effective_configuration (Some registry_ABC) profile_A = Some [(''line_length'', VInt 88)]"
  by (subst get_effective_configuration.simps) (simp add: profile_A_def)

lemma get_profile_A: "get_profile registry_ABC ''A'' = Some profile_A"
  by (simp add: registry_ABC_def add_profile_def empty_registry_def profile_A_def profile_B_def profile_C_def get_profile_def dict_get_def)
lemma get_profile_B: "get_profile registry_ABC ''B'' = Some profile_B"
  by (simp add: registry_ABC_def add_profile_def empty_registry_def profile_A_def profile_B_def profile_C_def get_profile_def dict_get_def)

lemma effective_B: "get_effective_configuration (Some registry_ABC) profile_B = Some [(''line_length'', VInt 120)]"
  using effective_resolved[of profile_B "''A''" registry_ABC profile_A] get_profile_A effective_A
  by (simp add: profile_B_def dict_update_def)

lemma effective_C: "get_effective_configuration (Some registry_ABC) profile_C
   = Some [(''line_length'', VInt 120), (''skip_string_normalization'', VBool True)]"
  using effective_resolved[of profile_C "''B''" registry_ABC profile_B] get_profile_B effective_B
  by (simp add: profile_C_def dict_update_def)

lemma get_profile_ABC:
  "get_profile registry_ABC k = Some q \<Longrightarrow> q = profile_A \<or> q = profile_B \<or> q = profile_C"
  by (auto simp: registry_ABC_def add_profile_def empty_registry_def profile_A_def profile_B_def
      profile_C_def get_profile_def dict_get_def split: if_splits)

lemma depth_ABC_decreases:
  "\<forall>q pn q'. (q = profile_C \<or> (\<exists>k. get_profile registry_ABC k = Some q)) \<and> parent q = Some pn \<and> pn \<noteq> []
      \<and> get_profile registry_ABC pn = Some q' \<longrightarrow> depth_ABC q' < depth_ABC q"
proof (intro allI impI)
  fix q pn q'
  assume a: "(q = profile_C \<or> (\<exists>k. get_profile registry_ABC k = Some q)) \<and> parent q = Some pn \<and> pn \<noteq> []
      \<and> get_profile registry_ABC pn = Some q'"
  then have "q = profile_A \<or> q = profile_B \<or> q = profile_C" using get_profile_ABC by blast
  then show "depth_ABC q' < depth_ABC q"
  proof (elim disjE)
    assume "q = profile_A" with a show ?thesis by (simp add: profile_A_def)
  next
    assume q: "q = profile_B"
    with a have "pn = ''A''" by (simp add: profile_B_def)
    with a get_profile_A have "q' = profile_A" by simp
    with q show ?thesis by (simp add: depth_ABC_def profile_A_def profile_B_def)
  next
    assume q: "q = profile_C"
    with a have "pn = ''B''" by (simp add: profile_C_def)
    with a get_profile_B have "q' = profile_B" by simp
    with q show ?thesis by (simp add: depth_ABC_def profile_B_def profile_C_def)
  qed
qed

text \<open>
  Claim C4. For a profile whose parent name is found in the registry, the effective
  configuration is the parent's effective configuration updated with the profile's own
  settings: under each key the profile's value if it has one, the inherited value
  otherwise. For a profile with no parent, or with a parent name that the registry does
  not hold, it is the profile's own settings, and nothing is raised. Along a chain of
  parents without a cycle (a measure on the profiles that decreases from each profile to
  its parent) the call returns. For the profiles A, B with parent A, and C with parent B,
  the effective configuration of C is \<open>line_length = 120\<close>,
  \<open>skip_string_normalization = True\<close>.
\<close>

theorem effective_configuration_inherits:
  fixes m :: "ConfigurationProfile \<Rightarrow> nat"
  shows
  "(parent p = Some pn \<and> pn \<noteq> [] \<and> get_profile r pn = Some q
      \<and> get_effective_configuration (Some r) q = Some c \<and> distinct (map fst (settings p)) \<longrightarrow>
        get_effective_configuration (Some r) p = Some (dict_update c (settings p))
      \<and> (\<forall>k. dict_get (dict_update c (settings p)) k
              = (case dict_get (settings p) k of Some v \<Rightarrow> Some v | None \<Rightarrow> dict_get c k)))
   \<and> (parent p = None \<or> parent p = Some [] \<or> (\<exists>pn. parent p = Some pn \<and> get_profile r pn = None) \<longrightarrow>
        get_effective_configuration (Some r) p = Some (settings p))
   \<and> ((\<forall>q pn q'. (q = p \<or> (\<exists>k. get_profile r k = Some q)) \<and> parent q = Some pn \<and> pn \<noteq> []
                 \<and> get_profile r pn = Some q' \<longrightarrow> m q' < m q) \<longrightarrow>
        (\<exists>c. get_effective_configuration (Some r) p = Some c))
   \<and> get_effective_configuration (Some registry_ABC) profile_C
        = Some [(''line_length'', VInt 120), (''skip_string_normalization'', VBool True)]"
proof (intro conjI impI)
  assume a: "parent p = Some pn \<and> pn \<noteq> [] \<and> get_profile r pn = Some q
      \<and> get_effective_configuration (Some r) q = Some c \<and> distinct (map fst (settings p))"
  then have "get_effective_configuration (Some r) p =
     Option.bind (get_effective_configuration (Some r) q) (\<lambda>config. Some (dict_update config (settings p)))"
    using effective_resolved by blast
  with a show "get_effective_configuration (Some r) p = Some (dict_update c (settings p))" by simp
  from a show "\<forall>k. dict_get (dict_update c (settings p)) k
              = (case dict_get (settings p) k of Some v \<Rightarrow> Some v | None \<Rightarrow> dict_get c k)"
    by (simp add: dict_get_dict_update)
next
  assume "parent p = None \<or> parent p = Some [] \<or> (\<exists>pn. parent p = Some pn \<and> get_profile r pn = None)"
  then show "get_effective_configuration (Some r) p = Some (settings p)" by (rule effective_unresolved)
next
  assume "\<forall>q pn q'. (q = p \<or> (\<exists>k. get_profile r k = Some q)) \<and> parent q = Some pn \<and> pn \<noteq> []
                 \<and> get_profile r pn = Some q' \<longrightarrow> m q' < m q"
  then show "\<exists>c. get_effective_configuration (Some r) p = Some c" by (rule effective_returns)
next
  show "get_effective_configuration (Some registry_ABC) profile_C
        = Some [(''line_length'', VInt 120), (''skip_string_normalization'', VBool True)]"
    by (rule effective_C)
qed

theorem effective_configuration_inherits_witness:
  "parent profile_C = Some ''B'' \<and> get_profile registry_ABC ''B'' = Some profile_B
   \<and> get_effective_configuration (Some registry_ABC) profile_B = Some [(''line_length'', VInt 120)]
   \<and> get_effective_configuration (Some registry_ABC) profile_C
        = Some (dict_update [(''line_length'', VInt 120)] (settings profile_C))
   \<and> get_effective_configuration (Some registry_ABC) profile_A = Some (settings profile_A)
   \<and> (\<exists>c. get_effective_configuration (Some registry_ABC) profile_C = Some c)"
  using effective_configuration_inherits
          [of profile_C "''B''" registry_ABC profile_B "[(''line_length'', VInt 120)]" depth_ABC]
        effective_configuration_inherits
          [of profile_A "''B''" registry_ABC profile_B "[(''line_length'', VInt 120)]" depth_ABC]
        depth_ABC_decreases get_profile_B effective_B
  by (simp add: profile_C_def profile_A_def)





lemma from_dict_to_dict: "from_dict (to_dict p) = Some (Inr p)"
  by (cases p) (simp add: to_dict_def field_def dict_get_def split: option.splits)














lemma my_default_glob:
  "glob_toml my_default_files ''/black/profiles'' = []"
  "glob_toml my_default_files ''/home/.black/profiles'' = my_default_files"
  by (simp_all add: glob_toml_def my_default_files_def endswith_def)


lemma my_default_later_registry:
  "new_ProfileRegistry plain_parse ''/black/profiles'' ''/home/.black/profiles'' my_default_files []
     = Some (Inr (my_default_created, []))"
  unfolding new_ProfileRegistry_def my_default_glob
  by (simp add: my_default_files_def try_load_file_def dict_get_def from_dict_to_dict add_profile_def
      my_default_created_def empty_registry_def my_default_def)





section \<open>Properties of the discovery\<close>

text \<open>
  The part of claim C7 that the code keeps: \<open>sys.path\<close> is the same after
  \<open>discover_plugins\<close> as before, whether it returns or raises, and a unit whose
  import raises \<open>ImportError\<close> is logged and the discovery goes on with the next one.
\<close>

lemma discover_restores_sys_path:
  "sys_path (snd (discover_plugins env paths st)) = sys_path st"
  by (simp add: discover_plugins_def Let_def split: prod.splits)

lemma import_error_isolated:
  "import_module env (take (length item - 3) item) (sys_path st) = (Inl e, sp) \<Longrightarrow>
   isinstance e ImportError \<Longrightarrow> endswith item ''.py'' \<Longrightarrow> \<not> startswith item ''_'' \<Longrightarrow>
   load_items env (item # items) st =
     load_items env items (st\<lparr>sys_path := sp, printed := printed st @
        [''Failed to import potential plugin '' @ take (length item - 3) item @ '': '' @ exc_msg e]\<rparr>)"
  by (simp add: load_item_def Let_def)

lemma import_error_example:
  "discover_plugins (two_units (Exc ImportError ''No module named x'')) None fresh_discovery
     = (Inr (), fresh_discovery\<lparr>plugin_classes := [(''good'', good_class)],
          printed := [''Failed to import potential plugin bad: No module named x'']\<rparr>)"
  by (simp add: discover_plugins_def two_units_def fresh_discovery_def load_item_def endswith_def
      isinstance_def Let_def good_class_def)

text \<open>
  Claim C7 fails for a unit whose import raises anything other than \<open>ImportError\<close>.
  With \<open>bad.py\<close> raising \<open>SyntaxError\<close>, the exception leaves
  \<open>discover_plugins\<close>: nothing is logged, and \<open>good.py\<close>, next in the directory,
  is never imported, so no plugin class is registered.
\<close>

theorem failing_unit_aborts_discovery:
  "discover_plugins (two_units (Exc SyntaxError ''invalid syntax'')) None fresh_discovery
     = (Inl (Exc SyntaxError ''invalid syntax''), fresh_discovery)"
  by (simp add: discover_plugins_def two_units_def fresh_discovery_def load_item_def endswith_def
      isinstance_def Let_def)

section \<open>Properties of the import sorter\<close>

lemma startswith_append: "startswith s p \<longleftrightarrow> (\<exists>r. s = p @ r)"
  by (induction s p rule: startswith.induct) auto

lemma top_module_undotted: "CHR ''.'' \<notin> set m \<Longrightarrow> top_module m = m"
  by (simp add: top_module_def takeWhile_absent)

lemma dotted_never_stdlib: "CHR ''.'' \<in> set m \<Longrightarrow> \<not> is_stdlib_module m"
proof
  assume dot: "CHR ''.'' \<in> set m" and s: "is_stdlib_module m"
  from s dot have p: "any_prefix m [''xml.'', ''http.'', ''html.'', ''email.'']"
    and t: "top_module m \<in> set stdlib_modules"
    by (auto simp: is_stdlib_module_def split: if_splits)
  from p have "top_module m \<in> {''xml'', ''http'', ''html'', ''email''}"
    by (auto simp: any_prefix_def startswith_append top_module_def)
  with t show False by (auto simp: stdlib_modules_def)
qed

lemma undotted_stdlib: "CHR ''.'' \<notin> set m \<Longrightarrow> is_stdlib_module m = (m \<in> set stdlib_modules)"
  by (simp add: is_stdlib_module_def top_module_undotted)

lemma any_prefix_Nil: "\<not> any_prefix m []"
  by (simp add: any_prefix_def)

lemma grouping_example:
  "sort_imports myapp_sorter
      [import_of ''os'', import_of ''myapp.core'', from_dot_import ''utils'', import_of ''requests'']
     = Inr [(import_of ''os'', ''stdlib''), (import_of ''requests'', ''third_party''),
            (import_of ''myapp.core'', ''first_party''), (from_dot_import ''utils'', ''local'')]"
  by (simp add: sort_imports_def myapp_sorter_def new_ImportSorterPlugin_def import_of_def
      from_dot_import_def determine_import_group_def get_module_name_def any_prefix_def
      is_stdlib_module_def top_module_def stdlib_modules_def dict_get_def sort_group_def Let_def)

text \<open>
  Claim C8, as amended. The group of an import is decided by the first test that
  succeeds, in this order: a local prefix matches, \<open>local\<close>; a first-party prefix
  matches, \<open>first_party\<close>; a third-party prefix matches, \<open>third_party\<close>; a
  standard-library prefix matches, \<open>stdlib\<close>; no standard-library prefix is
  configured and the module path has no dot and is in the built-in name set,
  \<open>stdlib\<close>; otherwise \<open>third_party\<close>. A path with a dot is never put in
  \<open>stdlib\<close> by the built-in name set. The group is always one of the four. With the
  configuration of the example, the four imports come out in the order \<open>os\<close>,
  \<open>requests\<close>, \<open>myapp.core\<close>, \<open>from . import utils\<close>.
\<close>

theorem import_group_priority:
  "(any_prefix (get_module_name imp) (local_prefixes self) \<longrightarrow>
      determine_import_group self imp = ''local'')
   \<and> (\<not> any_prefix (get_module_name imp) (local_prefixes self)
        \<and> any_prefix (get_module_name imp) (first_party_prefixes self) \<longrightarrow>
      determine_import_group self imp = ''first_party'')
   \<and> (\<not> any_prefix (get_module_name imp) (local_prefixes self)
        \<and> \<not> any_prefix (get_module_name imp) (first_party_prefixes self)
        \<and> any_prefix (get_module_name imp) (third_party_prefixes self) \<longrightarrow>
      determine_import_group self imp = ''third_party'')
   \<and> (\<not> any_prefix (get_module_name imp) (local_prefixes self)
        \<and> \<not> any_prefix (get_module_name imp) (first_party_prefixes self)
        \<and> \<not> any_prefix (get_module_name imp) (third_party_prefixes self)
        \<and> any_prefix (get_module_name imp) (stdlib_prefixes self) \<longrightarrow>
      determine_import_group self imp = ''stdlib'')
   \<and> (\<not> any_prefix (get_module_name imp) (local_prefixes self)
        \<and> \<not> any_prefix (get_module_name imp) (first_party_prefixes self)
        \<and> \<not> any_prefix (get_module_name imp) (third_party_prefixes self)
        \<and> stdlib_prefixes self = [] \<and> CHR ''.'' \<notin> set (get_module_name imp)
        \<and> get_module_name imp \<in> set stdlib_modules \<longrightarrow>
      determine_import_group self imp = ''stdlib'')
   \<and> (\<not> any_prefix (get_module_name imp) (local_prefixes self)
        \<and> \<not> any_prefix (get_module_name imp) (first_party_prefixes self)
        \<and> \<not> any_prefix (get_module_name imp) (third_party_prefixes self)
        \<and> \<not> any_prefix (get_module_name imp) (stdlib_prefixes self)
        \<and> (stdlib_prefixes self \<noteq> [] \<or> CHR ''.'' \<in> set (get_module_name imp)
             \<or> get_module_name imp \<notin> set stdlib_modules) \<longrightarrow>
      determine_import_group self imp = ''third_party'')
   \<and> determine_import_group self imp \<in> {''local'', ''first_party'', ''third_party'', ''stdlib''}
   \<and> sort_imports myapp_sorter
        [import_of ''os'', import_of ''myapp.core'', from_dot_import ''utils'', import_of ''requests'']
       = Inr [(import_of ''os'', ''stdlib''), (import_of ''requests'', ''third_party''),
              (import_of ''myapp.core'', ''first_party''), (from_dot_import ''utils'', ''local'')]"
proof -
  let ?m = "get_module_name imp"
  have np: "\<And>ps. ps = [] \<Longrightarrow> \<not> any_prefix ?m ps" by (simp add: any_prefix_def)
  have s: "is_stdlib_module ?m = (CHR ''.'' \<notin> set ?m \<and> ?m \<in> set stdlib_modules)"
    using dotted_never_stdlib[of ?m] undotted_stdlib[of ?m] by blast
  show ?thesis
    unfolding determine_import_group_def Let_def s
    using np grouping_example by (intro conjI impI) auto
qed

theorem import_group_priority_witness:
  "determine_import_group myapp_sorter (from_dot_import ''utils'') = ''local''
   \<and> determine_import_group myapp_sorter (import_of ''myapp.core'') = ''first_party''
   \<and> determine_import_group myapp_sorter (import_of ''os'') = ''stdlib''
   \<and> determine_import_group myapp_sorter (import_of ''requests'') = ''third_party''
   \<and> any_prefix (get_module_name (from_dot_import ''utils'')) (local_prefixes myapp_sorter)
   \<and> any_prefix (get_module_name (import_of ''myapp.core'')) (first_party_prefixes myapp_sorter)
   \<and> get_module_name (import_of ''os'') \<in> set stdlib_modules
   \<and> get_module_name (import_of ''requests'') \<notin> set stdlib_modules"
  using import_group_priority[of "from_dot_import ''utils''" myapp_sorter]
        import_group_priority[of "import_of ''myapp.core''" myapp_sorter]
        import_group_priority[of "import_of ''os''" myapp_sorter]
        import_group_priority[of "import_of ''requests''" myapp_sorter]
  by (simp add: myapp_sorter_def new_ImportSorterPlugin_def import_of_def from_dot_import_def
      get_module_name_def any_prefix_def stdlib_modules_def)

text \<open>
  Claim C8 as stated fails for a dotted path: with the default configuration, which has
  no standard-library prefix, \<open>os.path\<close> has the top-level component \<open>os\<close> in
  the built-in name set and is put in \<open>third_party\<close>.
\<close>

theorem dotted_stdlib_counterexample:
  "local_prefixes new_ImportSorterPlugin = [''.''] \<and> first_party_prefixes new_ImportSorterPlugin = []
   \<and> third_party_prefixes new_ImportSorterPlugin = [] \<and> stdlib_prefixes new_ImportSorterPlugin = []
   \<and> get_module_name (import_of ''os.path'') = ''os.path''
   \<and> top_module ''os.path'' \<in> set stdlib_modules
   \<and> determine_import_group new_ImportSorterPlugin (import_of ''os.path'') = ''third_party''"
  by (simp add: new_ImportSorterPlugin_def import_of_def determine_import_group_def
      get_module_name_def any_prefix_def is_stdlib_module_def top_module_def stdlib_modules_def)

text \<open>
  Sorting with keys of both kinds. The sort raises as soon as it compares a tuple with a
  string, which it does whenever both occur in the list.
\<close>

lemma key_lt_mixed: "is_tuple_key a \<noteq> is_tuple_key b \<Longrightarrow> key_lt a b = Inl key_type_error"
  by (cases a; cases b) simp_all

lemma key_lt_error: "key_lt a b = Inl e \<Longrightarrow> e = key_type_error"
  by (cases a; cases b) simp_all

lemma insert_sorted_error: "insert_sorted x ys = Inl e \<Longrightarrow> e = key_type_error"
proof (induction ys)
  case Nil
  then show ?case by simp
next
  case (Cons y ys)
  show ?case
  proof (cases "key_lt (fst y) (fst x)")
    case (Inl e')
    with Cons.prems have "e = e'" by simp
    with key_lt_error[OF Inl] show ?thesis by simp
  next
    case (Inr b)
    show ?thesis
    proof (cases b)
      case True
      with Inr Cons.prems have "insert_sorted x ys = Inl e"
        by (cases "insert_sorted x ys") simp_all
      then show ?thesis by (rule Cons.IH)
    next
      case False
      with Inr Cons.prems show ?thesis by simp
    qed
  qed
qed

lemma insert_sorted_set: "insert_sorted x ys = Inr zs \<Longrightarrow> set zs = insert x (set ys)"
proof (induction ys arbitrary: zs)
  case Nil
  then show ?case by auto
next
  case (Cons y ys)
  show ?case
  proof (cases "key_lt (fst y) (fst x)")
    case (Inl e')
    with Cons.prems show ?thesis by simp
  next
    case (Inr b)
    show ?thesis
    proof (cases b)
      case True
      with Inr Cons.prems obtain zs' where z: "insert_sorted x ys = Inr zs'" and zs: "zs = y # zs'"
        by (cases "insert_sorted x ys") auto
      from Cons.IH[OF z] zs show ?thesis by auto
    next
      case False
      with Inr Cons.prems have "zs = x # y # ys" by simp
      then show ?thesis by auto
    qed
  qed
qed

lemma py_sort_error: "py_sort xs = Inl e \<Longrightarrow> e = key_type_error"
proof (induction xs)
  case Nil
  then show ?case by simp
next
  case (Cons x xs)
  show ?case
  proof (cases "py_sort xs")
    case (Inl e')
    with Cons.prems have "e = e'" by simp
    with Cons.IH Inl show ?thesis by simp
  next
    case (Inr ys)
    with Cons.prems have "insert_sorted x ys = Inl e" by simp
    then show ?thesis by (rule insert_sorted_error)
  qed
qed

lemma py_sort_set: "py_sort xs = Inr ys \<Longrightarrow> set ys = set xs"
proof (induction xs arbitrary: ys)
  case Nil
  then show ?case by simp
next
  case (Cons x xs)
  from Cons.prems obtain ys' where a: "py_sort xs = Inr ys'" and b: "insert_sorted x ys' = Inr ys"
    by (cases "py_sort xs") auto
  from Cons.IH[OF a] insert_sorted_set[OF b] show ?case by simp
qed

lemma insert_sorted_mixed:
  assumes "ys \<noteq> []" "\<forall>y \<in> set ys. is_tuple_key (fst y) \<noteq> is_tuple_key (fst x)"
  shows "insert_sorted x ys = Inl key_type_error"
proof -
  from assms obtain y rest where ys: "ys = y # rest" by (cases ys) auto
  with assms have "is_tuple_key (fst y) \<noteq> is_tuple_key (fst x)" by simp
  then have "key_lt (fst y) (fst x) = Inl key_type_error" by (rule key_lt_mixed)
  then show ?thesis by (simp add: ys)
qed

lemma py_sort_mixed:
  assumes "a \<in> set xs" "b \<in> set xs" "is_tuple_key (fst a)" "\<not> is_tuple_key (fst b)"
  shows "py_sort xs = Inl key_type_error"
proof -
  have "(\<exists>a\<in>set xs. is_tuple_key (fst a)) \<Longrightarrow> (\<exists>b\<in>set xs. \<not> is_tuple_key (fst b))
        \<Longrightarrow> py_sort xs = Inl key_type_error"
  proof (induction xs)
    case Nil
    then show ?case by simp
  next
    case (Cons x xs)
    show ?case
    proof (cases "py_sort xs")
      case (Inl e)
      with py_sort_error[OF Inl] show ?thesis by simp
    next
      case (Inr ys)
      have set: "set ys = set xs" by (rule py_sort_set[OF Inr])
      have nm: "\<not> ((\<exists>a\<in>set xs. is_tuple_key (fst a)) \<and> (\<exists>b\<in>set xs. \<not> is_tuple_key (fst b)))"
      proof
        assume "(\<exists>a\<in>set xs. is_tuple_key (fst a)) \<and> (\<exists>b\<in>set xs. \<not> is_tuple_key (fst b))"
        then have "py_sort xs = Inl key_type_error" using Cons.IH by blast
        with Inr show False by simp
      qed
      have ne: "xs \<noteq> []"
      proof
        assume "xs = []"
        with Cons.prems have "is_tuple_key (fst x)" "\<not> is_tuple_key (fst x)" by simp_all
        then show False by simp
      qed
      have all: "\<forall>y \<in> set xs. is_tuple_key (fst y) \<noteq> is_tuple_key (fst x)"
      proof (cases "is_tuple_key (fst x)")
        case True
        with Cons.prems(2) have "\<exists>b\<in>set xs. \<not> is_tuple_key (fst b)" by auto
        with nm have "\<forall>y\<in>set xs. \<not> is_tuple_key (fst y)" by blast
        with True show ?thesis by simp
      next
        case False
        with Cons.prems(1) have "\<exists>a\<in>set xs. is_tuple_key (fst a)" by auto
        with nm have "\<forall>y\<in>set xs. is_tuple_key (fst y)" by blast
        with False show ?thesis by simp
      qed
      from ne set have "ys \<noteq> []" by auto
      from insert_sorted_mixed[OF this] all set
      have "insert_sorted x ys = Inl key_type_error" by simp
      with Inr show ?thesis by simp
    qed
  qed
  with assms show ?thesis by blast
qed

lemma lower_char_dot: "lower_char c = CHR ''.'' \<Longrightarrow> c = CHR ''.''"
proof (cases "map_of (zip upper_chars lower_chars) c")
  case None
  then show "lower_char c = CHR ''.'' \<Longrightarrow> c = CHR ''.''" by (simp add: lower_char_def)
next
  case (Some l)
  then have "(c, l) \<in> set (zip upper_chars lower_chars)" by (rule map_of_SomeD)
  then have "l \<in> set lower_chars" by (rule set_zip_rightD)
  moreover have "CHR ''.'' \<notin> set lower_chars" by (simp add: lower_chars_def)
  ultimately have "l \<noteq> CHR ''.''" by blast
  with Some show "lower_char c = CHR ''.'' \<Longrightarrow> c = CHR ''.''" by (simp add: lower_char_def)
qed

lemma lower_keeps_dots: "CHR ''.'' \<in> set (lower m) \<longleftrightarrow> CHR ''.'' \<in> set m"
proof
  assume "CHR ''.'' \<in> set (lower m)"
  then obtain c where c: "c \<in> set m" "lower_char c = CHR ''.''" by (auto simp: lower_def)
  from lower_char_dot[OF c(2)] c(1) show "CHR ''.'' \<in> set m" by simp
next
  assume "CHR ''.'' \<in> set m"
  then have "lower_char (CHR ''.'') \<in> set (lower m)" unfolding lower_def by simp
  then show "CHR ''.'' \<in> set (lower m)" by (simp add: dot_lower)
qed

lemma sort_key_kind:
  "is_tuple_key (get_sort_key imp ci True) \<longleftrightarrow> CHR ''.'' \<in> set (get_module_name imp)"
  by (simp add: get_sort_key_def Let_def lower_keeps_dots)

lemma sort_group_error: "sort_group self l = Inl e \<Longrightarrow> e = key_type_error"
proof -
  assume a: "sort_group self l = Inl e"
  let ?keyed = "map (\<lambda>x. (get_sort_key (fst x) (sort_case_insensitive self)
                                  (sort_by_package_then_name self), x)) l"
  from a have "py_sort ?keyed = Inl e"
    by (cases "py_sort ?keyed") (simp_all add: sort_group_def)
  then show ?thesis by (rule py_sort_error)
qed

lemma sort_group_mixed:
  assumes p: "sort_by_package_then_name self"
    and x: "(x, g) \<in> set l" and y: "(y, g') \<in> set l"
    and dx: "CHR ''.'' \<in> set (get_module_name x)" and dy: "CHR ''.'' \<notin> set (get_module_name y)"
  shows "sort_group self l = Inl key_type_error"
proof -
  let ?k = "\<lambda>x. (get_sort_key (fst x) (sort_case_insensitive self)
                                  (sort_by_package_then_name self), x)"
  have a: "?k (x, g) \<in> set (map ?k l)" using x by force
  have b: "?k (y, g') \<in> set (map ?k l)" using y by force
  have ka: "is_tuple_key (fst (?k (x, g)))" using p dx by (simp add: sort_key_kind)
  have kb: "\<not> is_tuple_key (fst (?k (y, g')))" using p dy by (simp add: sort_key_kind)
  from py_sort_mixed[OF a b ka kb] show ?thesis by (simp add: sort_group_def)
qed

lemma sort_groups_error: "sort_groups self groups = Inl e \<Longrightarrow> e = key_type_error"
proof (induction groups)
  case Nil
  then show ?case by simp
next
  case (Cons gl groups)
  obtain g l where gl: "gl = (g, l)" by (cases gl)
  show ?case
  proof (cases "sort_group self l")
    case (Inl e')
    with Cons.prems gl have "e = e'" by simp
    with sort_group_error[OF Inl] show ?thesis by simp
  next
    case (Inr s)
    with Cons.prems gl have "sort_groups self groups = Inl e"
      by (cases "sort_groups self groups") simp_all
    then show ?thesis by (rule Cons.IH)
  qed
qed

lemma sort_groups_mixed:
  assumes "(g, l) \<in> set groups" "sort_group self l = Inl key_type_error"
  shows "sort_groups self groups = Inl key_type_error"
  using assms
proof (induction groups)
  case Nil
  then show ?case by simp
next
  case (Cons gl groups)
  obtain g' l' where gl: "gl = (g', l')" by (cases gl)
  show ?case
  proof (cases "sort_group self l'")
    case (Inl e')
    with sort_group_error[OF Inl] gl show ?thesis by simp
  next
    case (Inr s)
    with Cons.prems gl have "(g, l) \<in> set groups" by auto
    from Cons.IH[OF this Cons.prems(2)] Inr gl show ?thesis by simp
  qed
qed

lemma group_imports_lookup:
  "dict_get (group_imports self imps acc) g =
     (if filter (\<lambda>i. determine_import_group self i = g) imps = [] then dict_get acc g
      else Some ((case dict_get acc g of Some l \<Rightarrow> l | None \<Rightarrow> [])
                 @ map (\<lambda>i. (i, g)) (filter (\<lambda>i. determine_import_group self i = g) imps)))"
proof (induction imps arbitrary: acc)
  case Nil
  then show ?case by simp
next
  case (Cons imp imps)
  let ?grp = "determine_import_group self imp"
  let ?acc = "(case dict_get acc ?grp of
                 None \<Rightarrow> dict_set acc ?grp [(imp, ?grp)]
               | Some l \<Rightarrow> dict_set acc ?grp (l @ [(imp, ?grp)]))"
  have step: "group_imports self (imp # imps) acc = group_imports self imps ?acc"
    by (simp add: Let_def)
  have acc': "dict_get ?acc g =
      (if g = ?grp then Some ((case dict_get acc g of Some l \<Rightarrow> l | None \<Rightarrow> []) @ [(imp, g)])
       else dict_get acc g)"
    by (cases "dict_get acc ?grp") (simp_all add: dict_get_dict_set)
  show ?case
    unfolding step Cons.IH[of ?acc] acc'
    by (cases "g = ?grp") auto
qed

lemma group_imports_member:
  assumes "x \<in> set imps"
  shows "\<exists>l. (determine_import_group self x, l) \<in> set (group_imports self imps [])
           \<and> (\<forall>i \<in> set imps. determine_import_group self i = determine_import_group self x
                  \<longrightarrow> (i, determine_import_group self x) \<in> set l)"
proof -
  let ?g = "determine_import_group self x"
  let ?f = "filter (\<lambda>i. determine_import_group self i = ?g) imps"
  from assms have ne: "?f \<noteq> []" by (auto simp: filter_empty_conv)
  with group_imports_lookup[of self imps "[]" ?g]
  have "dict_get (group_imports self imps []) ?g = Some (map (\<lambda>i. (i, ?g)) ?f)"
    by (simp add: dict_get_def)
  then have "(?g, map (\<lambda>i. (i, ?g)) ?f) \<in> set (group_imports self imps [])"
    unfolding dict_get_def by (rule map_of_SomeD)
  moreover have "\<forall>i \<in> set imps. determine_import_group self i = ?g
                  \<longrightarrow> (i, ?g) \<in> set (map (\<lambda>i. (i, ?g)) ?f)" by auto
  ultimately show ?thesis by blast
qed

lemma sort_imports_mixed:
  assumes p: "sort_by_package_then_name self"
    and x: "x \<in> set imps" and y: "y \<in> set imps"
    and g: "determine_import_group self x = determine_import_group self y"
    and dx: "CHR ''.'' \<in> set (get_module_name x)" and dy: "CHR ''.'' \<notin> set (get_module_name y)"
  shows "sort_imports self imps = Inl key_type_error"
proof -
  let ?g = "determine_import_group self x"
  from group_imports_member[OF x, of self] obtain l where
    l: "(?g, l) \<in> set (group_imports self imps [])" and
    all: "\<forall>i \<in> set imps. determine_import_group self i = ?g \<longrightarrow> (i, ?g) \<in> set l"
    by blast
  from all x have xl: "(x, ?g) \<in> set l" by blast
  from all y g have yl: "(y, ?g) \<in> set l" by simp
  from sort_group_mixed[OF p xl yl dx dy] have "sort_group self l = Inl key_type_error" .
  from sort_groups_mixed[OF l this]
  show ?thesis by (simp add: sort_imports_def)
qed

text \<open>
  Claim C10. With \<open>sort_by_package_then_name\<close> enabled, let a module hold two imports
  of the same group, one whose module path has a dot and one whose path has none. The
  first gets a tuple as its sort key and the second a string, and sorting their group
  compares the two: \<open>_sort_imports\<close> raises \<open>TypeError\<close>. The exception leaves
  \<open>apply_plugin\<close> for the module node, with the context still marked as sorting in
  progress. In the pipeline the plugin then counts as having no result: the error is
  logged under the plugin's name and the module is rendered by the host renderer.
\<close>

theorem mixed_sort_keys_raise:
  assumes p: "sort_by_package_then_name self"
    and f: "node_type n = ''file_input''"
    and x: "x \<in> set (extract_imports n)" and y: "y \<in> set (extract_imports n)"
    and g: "determine_import_group self x = determine_import_group self y"
    and dx: "CHR ''.'' \<in> set (get_module_name x)" and dy: "CHR ''.'' \<notin> set (get_module_name y)"
  shows "sort_imports self (extract_imports n) = Inl key_type_error
     \<and> exc_cls key_type_error = TypeError
     \<and> sorter_apply_plugin self lg n context
         = (Inl key_type_error, dict_set context ''import_sorting_in_progress'' (VBool True))
     \<and> visit [import_sorter_plugin self] lg n (context, err)
         = (lg n, dict_set context ''import_sorting_in_progress'' (VBool True),
            err @ [apply_error_line ''import_sorter'' key_type_error])"
proof -
  let ?c = "dict_set context ''import_sorting_in_progress'' (VBool True)"
  have s: "sort_imports self (extract_imports n) = Inl key_type_error"
    by (rule sort_imports_mixed[OF p x y g dx dy])
  have k: "exc_cls key_type_error = TypeError" by (simp add: key_type_error_def)
  from x have ne: "extract_imports n \<noteq> []" by auto
  have pm: "process_module_imports self n lg context = (Inl key_type_error, ?c)"
    using ne s by (simp add: process_module_imports_def Let_def exc_bind_def)
  have ap: "sorter_apply_plugin self lg n context = (Inl key_type_error, ?c)"
    using f pm by (simp add: sorter_apply_plugin_def)
  have ex: "isinstance key_type_error Exception"
    by (simp add: isinstance_def key_type_error_def)
  have v: "visit [import_sorter_plugin self] lg n (context, err)
         = (lg n, ?c, err @ [apply_error_line ''import_sorter'' key_type_error])"
    using ap ex by (simp add: visit_def import_sorter_plugin_def)
  from s k ap v show ?thesis by (intro conjI)
qed

lemma mixed_module_imports:
  "extract_imports mixed_module = [import_of ''requests'', import_of ''requests.adapters'']"
  by (simp add: mixed_module_def file_input_of_def extract_imports_def is_import_def import_of_def)

lemma mixed_module_groups:
  "determine_import_group new_ImportSorterPlugin (import_of ''requests.adapters'') = ''third_party''"
  "determine_import_group new_ImportSorterPlugin (import_of ''requests'') = ''third_party''"
  by (simp_all add: new_ImportSorterPlugin_def import_of_def determine_import_group_def
      get_module_name_def any_prefix_def is_stdlib_module_def top_module_def stdlib_modules_def)

theorem mixed_sort_keys_raise_witness:
  "sort_by_package_then_name new_ImportSorterPlugin
   \<and> node_type mixed_module = ''file_input''
   \<and> import_of ''requests.adapters'' \<in> set (extract_imports mixed_module)
   \<and> import_of ''requests'' \<in> set (extract_imports mixed_module)
   \<and> determine_import_group new_ImportSorterPlugin (import_of ''requests.adapters'')
       = determine_import_group new_ImportSorterPlugin (import_of ''requests'')
   \<and> get_module_name (import_of ''requests.adapters'') = ''requests.adapters''
   \<and> get_module_name (import_of ''requests'') = ''requests''
   \<and> sort_imports new_ImportSorterPlugin (extract_imports mixed_module) = Inl key_type_error
   \<and> visit [import_sorter_plugin new_ImportSorterPlugin] code_lines mixed_module ([], [])
       = (Inr [[]], [(''import_sorting_in_progress'', VBool True)],
          [''Error applying plugin import_sorter: < not supported between instances of tuple and str''])"
proof -
  have p: "sort_by_package_then_name new_ImportSorterPlugin" by (simp add: new_ImportSorterPlugin_def)
  have f: "node_type mixed_module = ''file_input''" by (simp add: mixed_module_def file_input_of_def)
  have x: "import_of ''requests.adapters'' \<in> set (extract_imports mixed_module)"
    by (simp add: mixed_module_imports)
  have y: "import_of ''requests'' \<in> set (extract_imports mixed_module)"
    by (simp add: mixed_module_imports)
  have g: "determine_import_group new_ImportSorterPlugin (import_of ''requests.adapters'')
       = determine_import_group new_ImportSorterPlugin (import_of ''requests'')"
    by (simp add: mixed_module_groups)
  have nx: "get_module_name (import_of ''requests.adapters'') = ''requests.adapters''"
    by (simp add: import_of_def get_module_name_def)
  have ny: "get_module_name (import_of ''requests'') = ''requests''"
    by (simp add: import_of_def get_module_name_def)
  have dx: "CHR ''.'' \<in> set (get_module_name (import_of ''requests.adapters''))" by (simp add: nx)
  have dy: "CHR ''.'' \<notin> set (get_module_name (import_of ''requests''))" by (simp add: ny)
  have cl: "code_lines mixed_module = Inr [[]]"
    by (simp add: code_lines_def mixed_module_def file_input_of_def)
  from mixed_sort_keys_raise[OF p f x y g dx dy, of code_lines "[]" "[]"]
  have "sort_imports new_ImportSorterPlugin (extract_imports mixed_module) = Inl key_type_error"
    and "visit [import_sorter_plugin new_ImportSorterPlugin] code_lines mixed_module ([], [])
       = (Inr [[]], [(''import_sorting_in_progress'', VBool True)],
          [''Error applying plugin import_sorter: < not supported between instances of tuple and str''])"
    by (simp_all add: cl apply_error_line_def key_type_error_def)
  with p f x y g nx ny show ?thesis by (intro conjI)
qed

end
